theory Spec2Isabelle
  imports Main "HOL-Library.AList"
begin

section \<open>Strings and numbers of the host language\<close>

text \<open>
  Strings are lists of characters. The white space of \<^verbatim>\<open>String.prototype.trim\<close> and of
  the regular expression class \<^verbatim>\<open>\s\<close> is, among the characters below 256: tab, line feed,
  vertical tab, form feed, carriage return, space and the no-break space.
\<close>

definition isSpaceJS :: "char \<Rightarrow> bool" where
  "isSpaceJS c \<longleftrightarrow>
     c \<in> {CHR 0x09, CHR 0x0A, CHR 0x0B, CHR 0x0C, CHR 0x0D, CHR '' '', CHR 0xA0}"

definition trim :: "string \<Rightarrow> string" where
  "trim s = rev (dropWhile isSpaceJS (rev (dropWhile isSpaceJS s)))"

definition startsWith :: "string \<Rightarrow> string \<Rightarrow> bool" where
  "startsWith s p \<longleftrightarrow> take (length p) s = p"

definition endsWith :: "string \<Rightarrow> string \<Rightarrow> bool" where
  "endsWith s p \<longleftrightarrow> length p \<le> length s \<and> drop (length s - length p) s = p"

definition isDigit :: "char \<Rightarrow> bool" where
  "isDigit c \<longleftrightarrow> c \<in> set ''0123456789''"

definition isNameStart :: "char \<Rightarrow> bool" where
  "isNameStart c \<longleftrightarrow>
     c \<in> set ''ABCDEFGHIJKLMNOPQRSTUVWXYZabcdefghijklmnopqrstuvwxyz_''"

definition isNameChar :: "char \<Rightarrow> bool" where
  "isNameChar c \<longleftrightarrow> isNameStart c \<or> isDigit c"

text \<open>\<^verbatim>\<open>/^[a-zA-Z_][a-zA-Z0-9_]*$/.test(s)\<close>\<close>

fun isIdentifier :: "string \<Rightarrow> bool" where
  "isIdentifier [] = False"
| "isIdentifier (c # cs) = (isNameStart c \<and> list_all isNameChar cs)"

text \<open>\<^verbatim>\<open>xs.join(sep)\<close>\<close>

fun join :: "string \<Rightarrow> string list \<Rightarrow> string" where
  "join sep [] = []"
| "join sep [x] = x"
| "join sep (x # y # ys) = x @ sep @ join sep (y # ys)"

text \<open>Decimal rendering of an integer, as \<^verbatim>\<open>String(n)\<close> and template literals do.\<close>

definition digitChar :: "nat \<Rightarrow> char" where
  "digitChar d = ''0123456789'' ! (d mod 10)"

function showNat :: "nat \<Rightarrow> string" where
  "showNat n = (if n < 10 then [digitChar n] else showNat (n div 10) @ [digitChar n])"
  by pat_completeness auto
termination
  by (relation "measure id") auto

declare showNat.simps [simp del]

definition showInt :: "int \<Rightarrow> string" where
  "showInt i = (if i < 0 then CHR ''-'' # showNat (nat (- i)) else showNat (nat i))"

text \<open>The integer that a run of decimal digits denotes.\<close>

definition digitsValue :: "string \<Rightarrow> int" where
  "digitsValue ds = foldl (\<lambda>acc c. 10 * acc + (int (of_char c) - 48)) 0 ds"

text \<open>
  An exit code is a number of the host language: a finite value (the codes that occur are
  integers), one of the two infinities, or \<^verbatim>\<open>NaN\<close>.
\<close>

datatype number = Finite int | PlusInfinity | MinusInfinity | NaN

fun negateNumber :: "number \<Rightarrow> number" where
  "negateNumber (Finite i) = Finite (- i)"
| "negateNumber PlusInfinity = MinusInfinity"
| "negateNumber MinusInfinity = PlusInfinity"
| "negateNumber NaN = NaN"

text \<open>
  The number that holds a non-negative integer \<open>m\<close>: a double has 53 significant bits, so
  \<open>m\<close> is kept as it is below \<open>2 ^ 53\<close>; above, it is rounded to the nearest multiple of the
  power of two that leaves 53 bits, a tie going to the even multiple; what rounds to
  \<open>2 ^ 1024\<close> or more is \<^verbatim>\<open>Infinity\<close>.
\<close>

fun bitLength :: "nat \<Rightarrow> nat" where
  "bitLength n = (if n = 0 then 0 else Suc (bitLength (n div 2)))"

declare bitLength.simps [simp del]

definition nearestDouble :: "nat \<Rightarrow> number" where
  "nearestDouble m =
     (if m < 2 ^ 53 then Finite (int m)
      else
        let e = bitLength m - 53;
            q = m div 2 ^ e;
            r = m mod 2 ^ e;
            q' = (if 2 ^ e < 2 * r \<or> (2 * r = 2 ^ e \<and> odd q) then q + 1 else q)
        in if 2 ^ 1024 \<le> q' * 2 ^ e then PlusInfinity else Finite (int (q' * 2 ^ e)))"

section \<open>Environment\<close>

text \<open>
  The environment is an ordinary object, created by an object literal and used as a
  dictionary. Its own properties are modelled as an association list with unique keys in
  the order in which they were created: assignment to a present key keeps its place,
  assignment to a new key appends, \<^verbatim>\<open>delete\<close> removes the entry. Being an ordinary object
  it inherits the members of \<^verbatim>\<open>Object.prototype\<close>, which a read \<^verbatim>\<open>env[name]\<close>, the test
  \<^verbatim>\<open>name in env\<close> and an assignment to \<^verbatim>\<open>__proto__\<close> all see.

  A property holds a string, or (\<open>Inherited\<close>) the value that a read of its key finds
  through the prototype. That is the only other value the engine ever stores: \<^verbatim>\<open>local NAME\<close>
  saves \<^verbatim>\<open>this.env[NAME]\<close>, which for a name the environment only inherits is the inherited
  member, and the end of the call writes it back. Under a key that the prototype does not
  have, that value is \<^verbatim>\<open>undefined\<close>.
\<close>

datatype EnvValue = Str string | Inherited

type_synonym Env = "(string \<times> EnvValue) list"

definition objectPrototypeKeys :: "string list" where
  "objectPrototypeKeys =
     [''constructor'', ''__defineGetter__'', ''__defineSetter__'', ''hasOwnProperty'',
      ''__lookupGetter__'', ''__lookupSetter__'', ''isPrototypeOf'', ''propertyIsEnumerable'',
      ''toString'', ''valueOf'', ''__proto__'', ''toLocaleString'']"

definition isInherited :: "string \<Rightarrow> bool" where
  "isInherited k \<longleftrightarrow> k \<in> set objectPrototypeKeys"

text \<open>\<^verbatim>\<open>this.env[k]\<close>; \<open>None\<close> is \<^verbatim>\<open>undefined\<close>.\<close>

definition envGet :: "Env \<Rightarrow> string \<Rightarrow> EnvValue option" where
  "envGet e k =
     (case map_of e k of
        Some (Str v) \<Rightarrow> Some (Str v)
      | Some Inherited \<Rightarrow> (if isInherited k then Some Inherited else None)
      | None \<Rightarrow> (if isInherited k then Some Inherited else None))"

text \<open>\<^verbatim>\<open>k in env\<close>: an own property or an inherited one.\<close>

definition envHas :: "(string \<times> 'v) list \<Rightarrow> string \<Rightarrow> bool" where
  "envHas e k \<longleftrightarrow> map_of e k \<noteq> None \<or> isInherited k"

text \<open>
  \<^verbatim>\<open>env[k] = v\<close>. Without an own property \<^verbatim>\<open>__proto__\<close> the assignment reaches the inherited
  setter, which ignores a string and, given the prototype the object already has, changes
  nothing; every other key becomes or stays an own property.
\<close>

definition envSet :: "(string \<times> 'v) list \<Rightarrow> string \<Rightarrow> 'v \<Rightarrow> (string \<times> 'v) list" where
  "envSet e k v = (if k = ''__proto__'' \<and> map_of e k = None then e else AList.update k v e)"

text \<open>\<^verbatim>\<open>delete env[k]\<close> removes an own property; an inherited member stays.\<close>

definition envDelete :: "(string \<times> 'v) list \<Rightarrow> string \<Rightarrow> (string \<times> 'v) list" where
  "envDelete e k = AList.delete k e"

text \<open>
  \<^verbatim>\<open>Object.entries(env)\<close> enumerates the own properties: first the keys that are array
  indices (the decimal numerals, without a leading zero, of the numbers below
  \<open>2 ^ 32 - 1\<close>) in ascending numeric order, then the other keys in insertion order.
\<close>

definition isArrayIndex :: "string \<Rightarrow> bool" where
  "isArrayIndex k \<longleftrightarrow>
     k \<noteq> [] \<and> list_all isDigit k \<and> (k = ''0'' \<or> hd k \<noteq> CHR ''0'')
     \<and> digitsValue k < 4294967295"

definition objectEntries :: "(string \<times> 'v) list \<Rightarrow> (string \<times> 'v) list" where
  "objectEntries e =
     sort_key (\<lambda>entry. digitsValue (fst entry)) (filter (\<lambda>entry. isArrayIndex (fst entry)) e)
       @ filter (\<lambda>entry. \<not> isArrayIndex (fst entry)) e"

text \<open>
  The text an inherited member turns into when it is appended to a string: the source text
  of a built-in function as Node prints it, which names the function (\<^verbatim>\<open>constructor\<close> is
  the function \<^verbatim>\<open>Object\<close>), and for \<^verbatim>\<open>__proto__\<close>, which reads as the prototype object, the
  text of a plain object.
\<close>

definition memberText :: "string \<Rightarrow> string" where
  "memberText k =
     (if k = ''__proto__'' then ''[object Object]''
      else ''function '' @ (if k = ''constructor'' then ''Object'' else k)
             @ ''() { [native code] }'')"

text \<open>\<^verbatim>\<open>result += this.env[k] ?? dflt\<close>: the text that is appended.\<close>

definition envOr :: "Env \<Rightarrow> string \<Rightarrow> string \<Rightarrow> string" where
  "envOr e k dflt =
     (case envGet e k of
        Some (Str v) \<Rightarrow> v
      | Some Inherited \<Rightarrow> memberText k
      | None \<Rightarrow> dflt)"

section \<open>Variable expansion at execution time\<close>

text \<open>
  \<^verbatim>\<open>content.match(/^([^:]+):-(.*)$/)\<close>: a non-empty name without a colon, the two characters
  \<^verbatim>\<open>:-\<close>, and a default that runs to the end of the content. The dot of the pattern does not
  match a line terminator, so a default holding one makes the match fail.
\<close>

definition defaultMatch :: "string \<Rightarrow> (string \<times> string) option" where
  "defaultMatch content =
     (let varName = takeWhile (\<lambda>c. c \<noteq> CHR '':'') content;
          rest = dropWhile (\<lambda>c. c \<noteq> CHR '':'') content
      in if varName \<noteq> [] \<and> take 2 rest = '':-''
            \<and> CHR 0x0A \<notin> set (drop 2 rest) \<and> CHR 0x0D \<notin> set (drop 2 rest)
         then Some (varName, drop 2 rest) else None)"

text \<open>
  \<^verbatim>\<open>expandVariables\<close> scans the string from left to right. The index loop of the source is
  a recursion on the text that is left.
\<close>

function expandVariables :: "Env \<Rightarrow> string \<Rightarrow> string" where
  "expandVariables e [] = []"
| "expandVariables e [c] = [c]"
| "expandVariables e (c # nextChar # rest) =
     (if c \<noteq> CHR ''$'' then c # expandVariables e (nextChar # rest)
      else if nextChar = CHR ''{'' \<and> CHR ''}'' \<in> set rest then
        (let content = takeWhile (\<lambda>x. x \<noteq> CHR ''}'') rest;
             after = tl (dropWhile (\<lambda>x. x \<noteq> CHR ''}'') rest)
         in (case defaultMatch content of
               Some (varName, defaultValue) \<Rightarrow> envOr e varName defaultValue
             | None \<Rightarrow> envOr e content [])
            @ expandVariables e after)
      else if nextChar \<in> set ''@#$?!*'' then
        envOr e [nextChar] [] @ expandVariables e rest
      else if isDigit nextChar then
        envOr e [nextChar] [] @ expandVariables e rest
      else if isNameStart nextChar then
        envOr e (nextChar # takeWhile isNameChar rest) []
          @ expandVariables e (dropWhile isNameChar rest)
      else c # expandVariables e (nextChar # rest))"
  by pat_completeness auto
termination
proof (relation "measure (\<lambda>(e, s). length s)")
  show "wf (measure (\<lambda>(e :: Env, s :: string). length s))" by simp
next
  fix e :: Env and c nextChar :: char and rest :: string
  show "((e, nextChar # rest), (e, c # nextChar # rest)) \<in> measure (\<lambda>(e, s). length s)"
    by simp
next
  fix e :: Env and c nextChar :: char and rest content after :: string
  assume "after = tl (dropWhile (\<lambda>x. x \<noteq> CHR ''}'') rest)"
  moreover have "length (dropWhile (\<lambda>x. x \<noteq> CHR ''}'') rest) \<le> length rest"
    by (rule length_dropWhile_le)
  ultimately show "((e, after), (e, c # nextChar # rest)) \<in> measure (\<lambda>(e, s). length s)"
    by simp
next
  fix e :: Env and c nextChar :: char and rest :: string
  show "((e, rest), (e, c # nextChar # rest)) \<in> measure (\<lambda>(e, s). length s)"
    by simp
next
  fix e :: Env and c nextChar :: char and rest :: string
  show "((e, rest), (e, c # nextChar # rest)) \<in> measure (\<lambda>(e, s). length s)"
    by simp
next
  fix e :: Env and c nextChar :: char and rest :: string
  have "length (dropWhile isNameChar rest) \<le> length rest"
    by (rule length_dropWhile_le)
  then show "((e, dropWhile isNameChar rest), (e, c # nextChar # rest))
      \<in> measure (\<lambda>(e, s). length s)"
    by simp
next
  fix e :: Env and c nextChar :: char and rest :: string
  show "((e, nextChar # rest), (e, c # nextChar # rest)) \<in> measure (\<lambda>(e, s). length s)"
    by simp
qed

declare expandVariables.simps(3) [simp del]

section \<open>Results, parsed commands and pipelines\<close>

record ExecResult =
  stdout :: string
  stderr :: string
  exitCode :: number

definition emptyResult :: ExecResult where
  "emptyResult = \<lparr>stdout = [], stderr = [], exitCode = Finite 0\<rparr>"

datatype RedirectionType = RStdout | RStderr | RStdin | RStderrToStdout

record Redirection =
  rtype :: RedirectionType
  target :: "string option"
  append :: bool

text \<open>
  \<^verbatim>\<open>redir.target\<close> used as a condition: the target is there and is not the empty string.
\<close>

definition truthyTarget :: "Redirection \<Rightarrow> string option" where
  "truthyTarget r = (case target r of Some t \<Rightarrow> (if t = [] then None else Some t) | None \<Rightarrow> None)"

record ParsedCommand =
  command :: string
  args :: "string list"
  quotedArgs :: "bool list"
  redirections :: "Redirection list"

text \<open>
  A stage of a pipeline: the command, the operator that precedes it (empty for a pipe and
  for the first stage) and the number of leading \<^verbatim>\<open>!\<close>.
\<close>

record PipelineStage =
  parsed :: ParsedCommand
  operator :: string
  negationCount :: nat

record Pipeline =
  commands :: "PipelineStage list"

text \<open>
  A call either returns a value, or throws (the promise rejects) with a message; both leave
  an interpreter state behind. \<open>OutOfFuel\<close> is the model's answer when the bound on the
  nesting of \<^verbatim>\<open>exec\<close> calls is used up; no theorem below takes it for a result.
\<close>

datatype ('a, 'st) run = Returned 'a 'st | Threw string 'st | OutOfFuel

section \<open>executePipeline\<close>

text \<open>The local variables of \<^verbatim>\<open>executePipeline\<close> that live across iterations.\<close>

record PipeVars =
  pstdin :: string
  lastResult :: ExecResult
  accumulatedStdout :: string
  accumulatedStderr :: string
  currentNegationCount :: nat

definition initialPipeVars :: "string \<Rightarrow> PipeVars" where
  "initialPipeVars initialStdin =
     \<lparr>pstdin = initialStdin, lastResult = emptyResult, accumulatedStdout = [],
      accumulatedStderr = [], currentNegationCount = 0\<rparr>"

text \<open>
  One iteration of the loop over the stages. The executor \<open>ec\<close> stands for
  \<^verbatim>\<open>this.executeCommand\<close>; the interpreter state it works on is threaded through.
\<close>

definition pipelineIter ::
  "('st \<Rightarrow> ParsedCommand \<Rightarrow> string \<Rightarrow> (ExecResult, 'st) run) \<Rightarrow> PipelineStage list \<Rightarrow> string
     \<Rightarrow> nat \<Rightarrow> PipeVars \<Rightarrow> 'st \<Rightarrow> (PipeVars, 'st) run" where
  "pipelineIter ec cmds initialStdin i v s =
     (let stage = cmds ! i;
          nextOperator = (if i + 1 < length cmds then operator (cmds ! (i + 1)) else []);
          v1 = (if operator stage \<noteq> [] \<or> i = 0
                then v\<lparr>currentNegationCount := negationCount stage\<rparr> else v)
      in if operator stage = ''&&'' \<and> exitCode (lastResult v1) \<noteq> Finite 0 then Returned v1 s
         else if operator stage = ''||'' \<and> exitCode (lastResult v1) = Finite 0 then Returned v1 s
         else
           let isPipedInput = (operator stage = []);
               isPipedOutput = (nextOperator = []);
               commandStdin = (if isPipedInput \<and> i > 0 then pstdin v1 else initialStdin)
           in case ec s (parsed stage) commandStdin of
                OutOfFuel \<Rightarrow> OutOfFuel
              | Threw msg s' \<Rightarrow> Threw msg s'
              | Returned result s' \<Rightarrow>
                  if isPipedOutput \<and> i + 1 < length cmds then
                    Returned (v1\<lparr>pstdin := stdout result,
                                 accumulatedStderr := accumulatedStderr v1 @ stderr result,
                                 lastResult := result\<rparr>) s'
                  else
                    let result' =
                          (if currentNegationCount v1 mod 2 = 1
                           then result\<lparr>exitCode := (if exitCode result = Finite 0 then Finite 1 else Finite 0)\<rparr>
                           else result)
                    in Returned (v1\<lparr>accumulatedStdout := accumulatedStdout v1 @ stdout result',
                                    accumulatedStderr := accumulatedStderr v1 @ stderr result',
                                    lastResult := result'\<rparr>) s')"

function pipelineLoop ::
  "('st \<Rightarrow> ParsedCommand \<Rightarrow> string \<Rightarrow> (ExecResult, 'st) run) \<Rightarrow> PipelineStage list \<Rightarrow> string
     \<Rightarrow> nat \<Rightarrow> PipeVars \<Rightarrow> 'st \<Rightarrow> (PipeVars, 'st) run" where
  "pipelineLoop ec cmds initialStdin i v s =
     (if i < length cmds then
        (case pipelineIter ec cmds initialStdin i v s of
           Returned v' s' \<Rightarrow> pipelineLoop ec cmds initialStdin (i + 1) v' s'
         | Threw msg s' \<Rightarrow> Threw msg s'
         | OutOfFuel \<Rightarrow> OutOfFuel)
      else Returned v s)"
  by pat_completeness auto
termination
  by (relation "measure (\<lambda>(ec, cmds, initialStdin, i, v, s). length cmds - i)") auto

declare pipelineLoop.simps [simp del]

definition executePipeline ::
  "('st \<Rightarrow> ParsedCommand \<Rightarrow> string \<Rightarrow> (ExecResult, 'st) run) \<Rightarrow> Pipeline \<Rightarrow> string \<Rightarrow> 'st
     \<Rightarrow> (ExecResult, 'st) run" where
  "executePipeline ec pipeline initialStdin s =
     (case pipelineLoop ec (commands pipeline) initialStdin 0 (initialPipeVars initialStdin) s of
        Returned v s' \<Rightarrow>
          Returned \<lparr>stdout = accumulatedStdout v, stderr = accumulatedStderr v,
                    exitCode = exitCode (lastResult v)\<rparr> s'
      | Threw msg s' \<Rightarrow> Threw msg s'
      | OutOfFuel \<Rightarrow> OutOfFuel)"

section \<open>Interpreter state and collaborators\<close>

text \<open>
  The fields of a \<^verbatim>\<open>BashEnv\<close> instance that change while it runs. A scope frame is a
  \<^verbatim>\<open>Map\<close> from a name to what \<^verbatim>\<open>this.env[name]\<close> read before \<^verbatim>\<open>local\<close> shadowed it (\<open>None\<close>
  for \<^verbatim>\<open>undefined\<close>), in insertion order.
\<close>

type_synonym ScopeFrame = "(string \<times> EnvValue option) list"

record 'fs ShellState =
  fs :: 'fs
  cwd :: string
  env :: Env
  "functions" :: "(string \<times> string) list"
  previousDir :: string
  localScopes :: "ScopeFrame list"
  callDepth :: int
  commandCount :: int

type_synonym 'fs ExecFn = "'fs ShellState \<Rightarrow> string \<Rightarrow> (ExecResult, 'fs ShellState) run"

text \<open>
  A registered command gets its arguments and a context: the file system, the working
  directory, the live environment, its standard input and a callback into \<^verbatim>\<open>exec\<close>. In the
  model it gets the callback, the arguments, the standard input and the state the context
  points into, and returns or throws with the state it leaves.
\<close>

type_synonym 'fs Command =
  "'fs ExecFn \<Rightarrow> string list \<Rightarrow> string \<Rightarrow> 'fs ShellState \<Rightarrow> (ExecResult, 'fs ShellState) run"

text \<open>
  What an instance is built with and never changes: the three limits, the command
  registry, and the collaborators whose code is not part of the engine. The file system is
  the interface \<^verbatim>\<open>IFileSystem\<close>: an operation returns \<open>Inr\<close> its value or \<open>Inl\<close> the message
  of the error it throws. \<open>parserParse\<close> is \<^verbatim>\<open>ShellParser.parse\<close> after
  \<^verbatim>\<open>setEnv\<close>, \<open>globExpandArgs\<close> is \<^verbatim>\<open>GlobExpander.expandArgs\<close>; \<open>parseIfStatement\<close> and
  the three header matchers stand for the scanner of \<^verbatim>\<open>if\<close> statements and the regular
  expressions of the loop headers.
\<close>

record 'fs Host =
  maxCallDepth :: int
  maxCommandCount :: int
  maxLoopIterations :: int
  registry :: "string \<Rightarrow> 'fs Command option"
  parserParse :: "Env \<Rightarrow> string \<Rightarrow> Pipeline list"
  globExpandArgs :: "'fs \<Rightarrow> string \<Rightarrow> string list \<Rightarrow> bool list \<Rightarrow> string list"
  fsReadFile :: "'fs \<Rightarrow> string \<Rightarrow> string + string"
  fsWriteFile :: "'fs \<Rightarrow> string \<Rightarrow> string \<Rightarrow> string + 'fs"
  fsAppendFile :: "'fs \<Rightarrow> string \<Rightarrow> string \<Rightarrow> string + 'fs"
  fsStat :: "'fs \<Rightarrow> string \<Rightarrow> string + bool"
  fsResolvePath :: "'fs \<Rightarrow> string \<Rightarrow> string \<Rightarrow> string"
  parseIfStatement :: "string \<Rightarrow> string + (string option \<times> string) list"
  matchFor :: "string \<Rightarrow> (string \<times> string \<times> string) option"
  matchWhile :: "string \<Rightarrow> (string \<times> string) option"
  matchUntil :: "string \<Rightarrow> (string \<times> string) option"

definition resolvePath :: "'fs Host \<Rightarrow> 'fs ShellState \<Rightarrow> string \<Rightarrow> string" where
  "resolvePath h s path = fsResolvePath h (fs s) (cwd s) path"

section \<open>Builtins\<close>

text \<open>\<^verbatim>\<open>arg.indexOf("=")\<close> is positive: the argument has a \<^verbatim>\<open>=\<close> and does not start with it.\<close>

definition eqIndexPositive :: "string \<Rightarrow> bool" where
  "eqIndexPositive arg \<longleftrightarrow> CHR ''='' \<in> set arg \<and> hd arg \<noteq> CHR ''=''"

definition beforeEq :: "string \<Rightarrow> string" where
  "beforeEq arg = takeWhile (\<lambda>c. c \<noteq> CHR ''='') arg"

definition afterEq :: "string \<Rightarrow> string" where
  "afterEq arg = tl (dropWhile (\<lambda>c. c \<noteq> CHR ''='') arg)"

text \<open>\<^verbatim>\<open>BashEnv.handleExport\<close>, the method \<^verbatim>\<open>executeCommand\<close> calls.\<close>

fun exportArgs :: "Env \<Rightarrow> string list \<Rightarrow> Env" where
  "exportArgs e [] = e"
| "exportArgs e (arg # rest) =
     exportArgs (if eqIndexPositive arg then envSet e (beforeEq arg) (Str (afterEq arg)) else e)
       rest"

definition handleExport ::
  "string list \<Rightarrow> 'fs ShellState \<Rightarrow> (ExecResult, 'fs ShellState) run" where
  "handleExport a s = Returned emptyResult (s\<lparr>env := exportArgs (env s) a\<rparr>)"

definition handleUnset ::
  "string list \<Rightarrow> 'fs ShellState \<Rightarrow> (ExecResult, 'fs ShellState) run" where
  "handleUnset a s = Returned emptyResult (s\<lparr>env := foldl envDelete (env s) a\<rparr>)"

text \<open>
  \<^verbatim>\<open>this.env.HOME || "/"\<close>. \<^verbatim>\<open>HOME\<close> is no member of the prototype, so the read yields a
  string or \<^verbatim>\<open>undefined\<close>.
\<close>

definition homeOrRoot :: "Env \<Rightarrow> string" where
  "homeOrRoot e =
     (case envGet e ''HOME'' of
        Some (Str hm) \<Rightarrow> (if hm = [] then ''/'' else hm)
      | Some Inherited \<Rightarrow> ''/''
      | None \<Rightarrow> ''/'')"

definition handleCd ::
  "'fs Host \<Rightarrow> string list \<Rightarrow> 'fs ShellState \<Rightarrow> (ExecResult, 'fs ShellState) run" where
  "handleCd h a s =
     (let tgt = (case a of [] \<Rightarrow> homeOrRoot (env s)
                 | x # _ \<Rightarrow> (if x = [] then homeOrRoot (env s) else x));
          newDir = (if tgt = ''-'' then previousDir s
                    else if tgt = ''~'' then homeOrRoot (env s)
                    else resolvePath h s tgt)
      in case fsStat h (fs s) newDir of
           Inl _ \<Rightarrow>
             Returned \<lparr>stdout = [], stderr = ''cd: '' @ tgt @ '': No such file or directory\<newline>'',
                       exitCode = Finite 1\<rparr> s
         | Inr isDirectory \<Rightarrow>
             if \<not> isDirectory then
               Returned \<lparr>stdout = [], stderr = ''cd: '' @ tgt @ '': Not a directory\<newline>'',
                         exitCode = Finite 1\<rparr> s
             else Returned emptyResult (s\<lparr>previousDir := cwd s, cwd := newDir\<rparr>))"

text \<open>
  \<^verbatim>\<open>handleLocal\<close>: one argument. The frame is the top of the stack; the value before the
  call is saved only when the frame does not have the name yet.
\<close>

definition localArg :: "ScopeFrame \<times> Env \<Rightarrow> string \<Rightarrow> ScopeFrame \<times> Env" where
  "localArg st arg =
     (let currentScope = fst st; e = snd st;
          varName = (if eqIndexPositive arg then beforeEq arg else arg);
          val = (if eqIndexPositive arg then Some (afterEq arg) else None);
          scope' = (if varName \<in> fst ` set currentScope then currentScope
                    else currentScope @ [(varName, envGet e varName)]);
          e' = (case val of
                  Some v \<Rightarrow> envSet e varName (Str v)
                | None \<Rightarrow> (if \<not> envHas e varName then envSet e varName (Str []) else e))
      in (scope', e'))"

definition handleLocal ::
  "string list \<Rightarrow> 'fs ShellState \<Rightarrow> (ExecResult, 'fs ShellState) run" where
  "handleLocal a s =
     (if localScopes s = [] then
        Returned \<lparr>stdout = [], stderr = ''bash: local: can only be used in a function\<newline>'',
                  exitCode = Finite 1\<rparr> s
      else
        let r = foldl localArg (last (localScopes s), env s) a
        in Returned emptyResult
             (s\<lparr>localScopes := butlast (localScopes s) @ [fst r], env := snd r\<rparr>))"

text \<open>
  \<^verbatim>\<open>parseInt(text, 10)\<close>: leading white space, an optional sign, then the longest run of
  decimal digits. Without a digit the result is \<^verbatim>\<open>NaN\<close>; otherwise it is the number that
  holds the integer the digits denote, with the sign.
\<close>

definition parseInt10 :: "string \<Rightarrow> number" where
  "parseInt10 text =
     (let t = dropWhile isSpaceJS text;
          negative = (t \<noteq> [] \<and> hd t = CHR ''-'');
          t' = (if t \<noteq> [] \<and> (hd t = CHR ''-'' \<or> hd t = CHR ''+'') then tl t else t);
          ds = takeWhile isDigit t'
      in if ds = [] then NaN
         else if negative then negateNumber (nearestDouble (nat (digitsValue ds)))
         else nearestDouble (nat (digitsValue ds)))"

text \<open>
  The \<^verbatim>\<open>exit\<close> builtin of \<^verbatim>\<open>executeCommand\<close>:
  \<^verbatim>\<open>code = expandedArgs[0] ? parseInt(expandedArgs[0], 10) : 0\<close>, and the exit code is
  \<^verbatim>\<open>Number.isNaN(code) ? 1 : code\<close>.
\<close>

definition exitBuiltin :: "string list \<Rightarrow> ExecResult" where
  "exitBuiltin a =
     (let code = (case a of [] \<Rightarrow> Finite 0
                  | x # _ \<Rightarrow> (if x = [] then Finite 0 else parseInt10 x))
      in \<lparr>stdout = [], stderr = [], exitCode = (if code = NaN then Finite 1 else code)\<rparr>)"

section \<open>Redirections\<close>

text \<open>
  The loop over \<^verbatim>\<open>stdin\<close> redirections at the head of \<^verbatim>\<open>executeCommand\<close>: \<open>Inr\<close> the
  standard input the command gets, \<open>Inl\<close> the target whose read failed.
\<close>

fun stdinRedirections ::
  "'fs Host \<Rightarrow> 'fs ShellState \<Rightarrow> Redirection list \<Rightarrow> string \<Rightarrow> string + string" where
  "stdinRedirections h s [] stdin = Inr stdin"
| "stdinRedirections h s (r # rs) stdin =
     (if rtype r = RStdin then
        (case truthyTarget r of
           None \<Rightarrow> stdinRedirections h s rs stdin
         | Some t \<Rightarrow>
             (case fsReadFile h (fs s) (resolvePath h s t) of
                Inl _ \<Rightarrow> Inl t
              | Inr content \<Rightarrow> stdinRedirections h s rs content))
      else stdinRedirections h s rs stdin)"

text \<open>
  \<^verbatim>\<open>applyRedirections\<close>. A write the file system refuses throws out of the method: there is
  no handler around it.
\<close>

definition writeTarget ::
  "'fs Host \<Rightarrow> 'fs ShellState \<Rightarrow> Redirection \<Rightarrow> string \<Rightarrow> string \<Rightarrow> string + 'fs" where
  "writeTarget h s r t content =
     (if append r then fsAppendFile h (fs s) (resolvePath h s t) content
      else fsWriteFile h (fs s) (resolvePath h s t) content)"

fun applyRedirections ::
  "'fs Host \<Rightarrow> Redirection list \<Rightarrow> ExecResult \<Rightarrow> 'fs ShellState
     \<Rightarrow> (ExecResult, 'fs ShellState) run" where
  "applyRedirections h [] result s = Returned result s"
| "applyRedirections h (r # rs) result s =
     (case rtype r of
        RStdout \<Rightarrow>
          (case truthyTarget r of
             None \<Rightarrow> applyRedirections h rs result s
           | Some t \<Rightarrow>
               (case writeTarget h s r t (stdout result) of
                  Inl msg \<Rightarrow> Threw msg s
                | Inr fs' \<Rightarrow> applyRedirections h rs (result\<lparr>stdout := []\<rparr>) (s\<lparr>fs := fs'\<rparr>)))
      | RStderr \<Rightarrow>
          if target r = Some ''/dev/null'' then
            applyRedirections h rs (result\<lparr>stderr := []\<rparr>) s
          else
            (case truthyTarget r of
               None \<Rightarrow> applyRedirections h rs result s
             | Some t \<Rightarrow>
                 (case writeTarget h s r t (stderr result) of
                    Inl msg \<Rightarrow> Threw msg s
                  | Inr fs' \<Rightarrow> applyRedirections h rs (result\<lparr>stderr := []\<rparr>) (s\<lparr>fs := fs'\<rparr>)))
      | RStderrToStdout \<Rightarrow>
          applyRedirections h rs
            (result\<lparr>stdout := stdout result @ stderr result, stderr := []\<rparr>) s
      | RStdin \<Rightarrow> applyRedirections h rs result s)"

section \<open>Function invocation\<close>

text \<open>Binding \<^verbatim>\<open>$1..$N\<close>, \<^verbatim>\<open>$@\<close> and \<^verbatim>\<open>$#\<close> on entry, and deleting them on exit.\<close>

fun bindNumbered :: "Env \<Rightarrow> nat \<Rightarrow> string list \<Rightarrow> Env" where
  "bindNumbered e i [] = e"
| "bindNumbered e i (a # rest) = bindNumbered (envSet e (showNat (i + 1)) (Str a)) (i + 1) rest"

definition bindPositional :: "Env \<Rightarrow> string list \<Rightarrow> Env" where
  "bindPositional e a =
     envSet (envSet (bindNumbered e 0 a) ''@'' (Str (join '' '' a))) ''#''
       (Str (showNat (length a)))"

definition clearPositional :: "Env \<Rightarrow> nat \<Rightarrow> Env" where
  "clearPositional e n =
     envDelete (envDelete (foldl (\<lambda>acc i. envDelete acc (showNat i)) e [1..<n + 1]) ''@'') ''#''"

text \<open>Popping a frame: each saved name is deleted or set back, in insertion order.\<close>

definition restoreScope :: "Env \<Rightarrow> ScopeFrame \<Rightarrow> Env" where
  "restoreScope e frame =
     foldl (\<lambda>acc entry. case snd entry of
                           None \<Rightarrow> envDelete acc (fst entry)
                         | Some originalValue \<Rightarrow> envSet acc (fst entry) originalValue)
       e frame"

definition popScope :: "'fs ShellState \<Rightarrow> 'fs ShellState" where
  "popScope s =
     (if localScopes s = [] then s
      else s\<lparr>localScopes := butlast (localScopes s),
             env := restoreScope (env s) (last (localScopes s))\<rparr>)"

definition recursionLimitMessage :: "'fs Host \<Rightarrow> string \<Rightarrow> string" where
  "recursionLimitMessage h name =
     ''bash: '' @ name @ '': maximum recursion depth ('' @ showInt (maxCallDepth h)
       @ '') exceeded. Increase with maxCallDepth option.\<newline>''"

text \<open>
  The block of \<^verbatim>\<open>executeCommand\<close> that runs a user-defined function. \<open>rec\<close> is
  \<^verbatim>\<open>this.exec\<close>. When the body throws, nothing after the call runs.
\<close>

definition invokeFunction ::
  "'fs Host \<Rightarrow> 'fs ExecFn \<Rightarrow> string \<Rightarrow> string \<Rightarrow> string list \<Rightarrow> 'fs ShellState
     \<Rightarrow> (ExecResult, 'fs ShellState) run" where
  "invokeFunction h rec expandedCommand funcBody expandedArgs s =
     (let s1 = s\<lparr>callDepth := callDepth s + 1\<rparr>
      in if callDepth s1 > maxCallDepth h then
           Returned \<lparr>stdout = [], stderr = recursionLimitMessage h expandedCommand, exitCode = Finite 1\<rparr>
             (s1\<lparr>callDepth := callDepth s1 - 1\<rparr>)
         else
           let s2 = s1\<lparr>localScopes := localScopes s1 @ [[]],
                       env := bindPositional (env s1) expandedArgs\<rparr>
           in case rec s2 funcBody of
                OutOfFuel \<Rightarrow> OutOfFuel
              | Threw msg s3 \<Rightarrow> Threw msg s3
              | Returned result s3 \<Rightarrow>
                  let s4 = popScope (s3\<lparr>callDepth := callDepth s3 - 1\<rparr>)
                  in Returned result
                       (s4\<lparr>env := clearPositional (env s4) (length expandedArgs)\<rparr>))"

section \<open>Dispatch through the registry\<close>

text \<open>
  \<^verbatim>\<open>expandedCommand.split("/").pop() || expandedCommand\<close>: the text after the last slash,
  or the whole word when that is empty.
\<close>

definition commandNameOf :: "string \<Rightarrow> string" where
  "commandNameOf expandedCommand =
     (if CHR ''/'' \<in> set expandedCommand then
        (let lastPart = rev (takeWhile (\<lambda>c. c \<noteq> CHR ''/'') (rev expandedCommand))
         in if lastPart = [] then expandedCommand else lastPart)
      else expandedCommand)"

text \<open>
  The \<^verbatim>\<open>try\<close>/\<^verbatim>\<open>catch\<close> around \<^verbatim>\<open>cmd.execute\<close>. The message names \<^verbatim>\<open>command\<close>, the word
  before expansion.
\<close>

definition tryExecute ::
  "'fs Command \<Rightarrow> 'fs ExecFn \<Rightarrow> string \<Rightarrow> string list \<Rightarrow> string \<Rightarrow> 'fs ShellState
     \<Rightarrow> (ExecResult, 'fs ShellState) run" where
  "tryExecute cmd rec cmdWord expandedArgs stdin s =
     (case cmd rec expandedArgs stdin s of
        Threw message s' \<Rightarrow>
          Returned \<lparr>stdout = [], stderr = cmdWord @ '': '' @ message @ ''\<newline>'', exitCode = Finite 1\<rparr> s'
      | other \<Rightarrow> other)"

definition dispatchCommand ::
  "'fs Host \<Rightarrow> 'fs ExecFn \<Rightarrow> string \<Rightarrow> string \<Rightarrow> string list \<Rightarrow> Redirection list \<Rightarrow> string
     \<Rightarrow> 'fs ShellState \<Rightarrow> (ExecResult, 'fs ShellState) run" where
  "dispatchCommand h rec cmdWord expandedCommand expandedArgs redirs stdin s =
     (case registry h (commandNameOf expandedCommand) of
        None \<Rightarrow>
          Returned \<lparr>stdout = [], stderr = ''bash: '' @ expandedCommand @ '': command not found\<newline>'',
                    exitCode = Finite 127\<rparr> s
      | Some cmd \<Rightarrow>
          (case tryExecute cmd rec cmdWord expandedArgs stdin s of
             Returned result s' \<Rightarrow> applyRedirections h redirs result s'
           | other \<Rightarrow> other))"

section \<open>Compound statements\<close>

text \<open>
  \<^verbatim>\<open>executeIfStatement\<close> after parsing: the first branch whose condition exits with 0, or
  the \<^verbatim>\<open>else\<close> branch (no condition), runs its body; the fields of the result are those of
  the body's result.
\<close>

fun ifBranches ::
  "'fs ExecFn \<Rightarrow> (string option \<times> string) list \<Rightarrow> 'fs ShellState
     \<Rightarrow> (ExecResult, 'fs ShellState) run" where
  "ifBranches rec [] s = Returned emptyResult s"
| "ifBranches rec ((None, body) # rest) s = rec s body"
| "ifBranches rec ((Some condition, body) # rest) s =
     (case rec s condition of
        Returned condResult s' \<Rightarrow>
          (if exitCode condResult = Finite 0 then rec s' body else ifBranches rec rest s')
      | other \<Rightarrow> other)"

definition executeIfStatement ::
  "'fs Host \<Rightarrow> 'fs ExecFn \<Rightarrow> 'fs ShellState \<Rightarrow> string \<Rightarrow> (ExecResult, 'fs ShellState) run" where
  "executeIfStatement h rec s input =
     (case parseIfStatement h input of
        Inl err \<Rightarrow> Returned \<lparr>stdout = [], stderr = err, exitCode = Finite 2\<rparr> s
      | Inr branches \<Rightarrow> ifBranches rec branches s)"

text \<open>\<^verbatim>\<open>listStr.trim().split(/\s+/).filter((s) => s.length > 0)\<close>\<close>

fun splitWordsFrom :: "string \<Rightarrow> string \<Rightarrow> string list" where
  "splitWordsFrom cur [] = (if cur = [] then [] else [cur])"
| "splitWordsFrom cur (c # cs) =
     (if isSpaceJS c then (if cur = [] then splitWordsFrom [] cs else cur # splitWordsFrom [] cs)
      else splitWordsFrom (cur @ [c]) cs)"

definition loopLimitMessage :: "'fs Host \<Rightarrow> string \<Rightarrow> string" where
  "loopLimitMessage h kind =
     ''bash: '' @ kind @ '' loop: too many iterations ('' @ showInt (maxLoopIterations h)
       @ ''). Increase with maxLoopIterations option.\<newline>''"

definition accumulate :: "ExecResult \<Rightarrow> ExecResult \<Rightarrow> ExecResult" where
  "accumulate acc result =
     \<lparr>stdout = stdout acc @ stdout result, stderr = stderr acc @ stderr result,
      exitCode = exitCode result\<rparr>"

definition limitResult :: "'fs Host \<Rightarrow> string \<Rightarrow> ExecResult \<Rightarrow> ExecResult" where
  "limitResult h kind acc =
     \<lparr>stdout = stdout acc, stderr = stderr acc @ loopLimitMessage h kind, exitCode = Finite 1\<rparr>"

fun forLoopItems ::
  "'fs Host \<Rightarrow> 'fs ExecFn \<Rightarrow> string \<Rightarrow> string \<Rightarrow> string list \<Rightarrow> int \<Rightarrow> ExecResult
     \<Rightarrow> 'fs ShellState \<Rightarrow> (ExecResult, 'fs ShellState) run" where
  "forLoopItems h rec varName body [] iterations acc s =
     Returned acc (s\<lparr>env := envDelete (env s) varName\<rparr>)"
| "forLoopItems h rec varName body (item # items) iterations acc s =
     (if iterations \<ge> maxLoopIterations h then Returned (limitResult h ''for'' acc) s
      else
        (case rec (s\<lparr>env := envSet (env s) varName (Str item)\<rparr>) body of
           Returned result s' \<Rightarrow>
             forLoopItems h rec varName body items (iterations + 1) (accumulate acc result) s'
         | other \<Rightarrow> other))"

definition executeForLoop ::
  "'fs Host \<Rightarrow> 'fs ExecFn \<Rightarrow> 'fs ShellState \<Rightarrow> string \<Rightarrow> (ExecResult, 'fs ShellState) run" where
  "executeForLoop h rec s input =
     (case matchFor h input of
        None \<Rightarrow>
          Returned \<lparr>stdout = [], stderr = ''bash: syntax error near for loop\<newline>'', exitCode = Finite 2\<rparr> s
      | Some (varName, listStr, body) \<Rightarrow>
          forLoopItems h rec varName body (splitWordsFrom [] listStr) 0 emptyResult s)"

function executeWhileLoopBody ::
  "'fs Host \<Rightarrow> 'fs ExecFn \<Rightarrow> string \<Rightarrow> string \<Rightarrow> int \<Rightarrow> ExecResult \<Rightarrow> 'fs ShellState
     \<Rightarrow> (ExecResult, 'fs ShellState) run" where
  "executeWhileLoopBody h rec condition body iterations acc s =
     (if iterations \<ge> maxLoopIterations h then Returned (limitResult h ''while'' acc) s
      else
        (case rec s condition of
           Returned condResult s1 \<Rightarrow>
             (if exitCode condResult \<noteq> Finite 0 then Returned acc s1
              else
                (case rec s1 body of
                   Returned result s2 \<Rightarrow>
                     executeWhileLoopBody h rec condition body (iterations + 1)
                       (accumulate acc result) s2
                 | other \<Rightarrow> other))
         | other \<Rightarrow> other))"
  by pat_completeness auto
termination
  by (relation "measure (\<lambda>(h, rec, condition, body, iterations, acc, s).
        nat (maxLoopIterations h - iterations))") auto

declare executeWhileLoopBody.simps [simp del]

function executeUntilLoopBody ::
  "'fs Host \<Rightarrow> 'fs ExecFn \<Rightarrow> string \<Rightarrow> string \<Rightarrow> int \<Rightarrow> ExecResult \<Rightarrow> 'fs ShellState
     \<Rightarrow> (ExecResult, 'fs ShellState) run" where
  "executeUntilLoopBody h rec condition body iterations acc s =
     (if iterations \<ge> maxLoopIterations h then Returned (limitResult h ''until'' acc) s
      else
        (case rec s condition of
           Returned condResult s1 \<Rightarrow>
             (if exitCode condResult = Finite 0 then Returned acc s1
              else
                (case rec s1 body of
                   Returned result s2 \<Rightarrow>
                     executeUntilLoopBody h rec condition body (iterations + 1)
                       (accumulate acc result) s2
                 | other \<Rightarrow> other))
         | other \<Rightarrow> other))"
  by pat_completeness auto
termination
  by (relation "measure (\<lambda>(h, rec, condition, body, iterations, acc, s).
        nat (maxLoopIterations h - iterations))") auto

declare executeUntilLoopBody.simps [simp del]

definition executeWhileLoop ::
  "'fs Host \<Rightarrow> 'fs ExecFn \<Rightarrow> 'fs ShellState \<Rightarrow> string \<Rightarrow> (ExecResult, 'fs ShellState) run" where
  "executeWhileLoop h rec s input =
     (case matchWhile h input of
        None \<Rightarrow>
          Returned \<lparr>stdout = [], stderr = ''bash: syntax error near while loop\<newline>'',
                    exitCode = Finite 2\<rparr> s
      | Some (condition, body) \<Rightarrow> executeWhileLoopBody h rec condition body 0 emptyResult s)"

definition executeUntilLoop ::
  "'fs Host \<Rightarrow> 'fs ExecFn \<Rightarrow> 'fs ShellState \<Rightarrow> string \<Rightarrow> (ExecResult, 'fs ShellState) run" where
  "executeUntilLoop h rec s input =
     (case matchUntil h input of
        None \<Rightarrow>
          Returned \<lparr>stdout = [], stderr = ''bash: syntax error near until loop\<newline>'',
                    exitCode = Finite 2\<rparr> s
      | Some (condition, body) \<Rightarrow> executeUntilLoopBody h rec condition body 0 emptyResult s)"

section \<open>executeCommand\<close>

text \<open>\<^verbatim>\<open>quotedArgs[i]\<close> as a condition: an index past the end reads \<^verbatim>\<open>undefined\<close>.\<close>

definition quotedAt :: "bool list \<Rightarrow> nat \<Rightarrow> bool" where
  "quotedAt qs i \<longleftrightarrow> i < length qs \<and> qs ! i"

definition expandArgList :: "Env \<Rightarrow> string list \<Rightarrow> bool list \<Rightarrow> string list" where
  "expandArgList e a qs =
     map (\<lambda>(i, arg). if quotedAt qs i then arg else expandVariables e arg) (enumerate 0 a)"

text \<open>\<^verbatim>\<open>this.functions.get(name)\<close> used as a condition: a stored empty body counts as none.\<close>

definition lookupFunction :: "'fs ShellState \<Rightarrow> string \<Rightarrow> string option" where
  "lookupFunction s name =
     (case map_of (functions s) name of
        Some funcBody \<Rightarrow> (if funcBody = [] then None else Some funcBody)
      | None \<Rightarrow> None)"

definition executeCommand ::
  "'fs Host \<Rightarrow> 'fs ExecFn \<Rightarrow> 'fs ShellState \<Rightarrow> ParsedCommand \<Rightarrow> string
     \<Rightarrow> (ExecResult, 'fs ShellState) run" where
  "executeCommand h rec s pc stdin0 =
     (if command pc = [] then Returned emptyResult s
      else
        case stdinRedirections h s (redirections pc) stdin0 of
          Inl t \<Rightarrow>
            Returned \<lparr>stdout = [], stderr = ''bash: '' @ t @ '': No such file or directory\<newline>'',
                      exitCode = Finite 1\<rparr> s
        | Inr stdin \<Rightarrow>
            if startsWith (command pc) ''if '' \<or> startsWith (command pc) ''if;'' then
              executeIfStatement h rec s (command pc)
            else
              let expandedCommand = expandVariables (env s) (command pc);
                  varExpandedArgs = expandArgList (env s) (args pc) (quotedArgs pc);
                  expandedArgs = globExpandArgs h (fs s) (cwd s) varExpandedArgs (quotedArgs pc)
              in if expandedCommand = ''cd'' then handleCd h expandedArgs s
                 else if expandedCommand = ''export'' then handleExport expandedArgs s
                 else if expandedCommand = ''unset'' then handleUnset expandedArgs s
                 else if expandedCommand = ''exit'' then Returned (exitBuiltin expandedArgs) s
                 else if expandedCommand = ''local'' then handleLocal expandedArgs s
                 else if expandedArgs = [] \<and> CHR ''='' \<in> set expandedCommand
                         \<and> isIdentifier (beforeEq expandedCommand) then
                   Returned emptyResult
                     (s\<lparr>env := envSet (env s) (beforeEq expandedCommand)
                                (Str (afterEq expandedCommand))\<rparr>)
                 else
                   (case lookupFunction s expandedCommand of
                      Some funcBody \<Rightarrow> invokeFunction h rec expandedCommand funcBody expandedArgs s
                    | None \<Rightarrow>
                        dispatchCommand h rec (command pc) expandedCommand expandedArgs
                          (redirections pc) stdin s))"

section \<open>exec\<close>

text \<open>
  \<^verbatim>\<open>parseFunctionDefinition\<close>. Both patterns end in \<^verbatim>\<open>\{(.*)\}\s*$\<close> with the dot matching
  every character: the text from the brace on, without trailing white space, must end with
  a closing brace, and the body is what lies between.
\<close>

definition bracedBody :: "string \<Rightarrow> string option" where
  "bracedBody t =
     (case t of
        [] \<Rightarrow> None
      | c # inner \<Rightarrow>
          (let u = rev (dropWhile isSpaceJS (rev inner))
           in if c = CHR ''{'' \<and> u \<noteq> [] \<and> last u = CHR ''}'' then Some (butlast u) else None))"

definition nameThen :: "string \<Rightarrow> (string \<times> string) option" where
  "nameThen t =
     (case t of
        [] \<Rightarrow> None
      | c # cs \<Rightarrow> (if isNameStart c
                    then Some (c # takeWhile isNameChar cs, dropWhile isNameChar cs) else None))"

definition parseFunctionDefinition :: "string \<Rightarrow> (string \<times> string) option" where
  "parseFunctionDefinition input =
     (let funcKeywordMatch =
            (if startsWith input ''function'' \<and> drop 8 input \<noteq> [] \<and> isSpaceJS (hd (drop 8 input))
             then (case nameThen (dropWhile isSpaceJS (drop 8 input)) of
                     None \<Rightarrow> None
                   | Some (name, after) \<Rightarrow>
                       (case bracedBody (dropWhile isSpaceJS after) of
                          None \<Rightarrow> None
                        | Some body \<Rightarrow> Some (name, trim body)))
             else None)
      in case funcKeywordMatch of
           Some m \<Rightarrow> Some m
         | None \<Rightarrow>
             (case nameThen input of
                None \<Rightarrow> None
              | Some (name, after) \<Rightarrow>
                  (let a1 = dropWhile isSpaceJS after
                   in if a1 \<noteq> [] \<and> hd a1 = CHR ''('' then
                        (let a2 = dropWhile isSpaceJS (tl a1)
                         in if a2 \<noteq> [] \<and> hd a2 = CHR '')'' then
                              (case bracedBody (dropWhile isSpaceJS (tl a2)) of
                                 None \<Rightarrow> None
                               | Some body \<Rightarrow> Some (name, trim body))
                            else None)
                      else None)))"

text \<open>
  The loop of \<^verbatim>\<open>exec\<close> over the parsed pipelines: the standard output of one is the
  standard input of the next.
\<close>

fun runPipelines ::
  "'fs Host \<Rightarrow> 'fs ExecFn \<Rightarrow> Pipeline list \<Rightarrow> string \<Rightarrow> ExecResult \<Rightarrow> 'fs ShellState
     \<Rightarrow> (ExecResult, 'fs ShellState) run" where
  "runPipelines h rec [] stdin lastRes s = Returned lastRes s"
| "runPipelines h rec (pipeline # rest) stdin lastRes s =
     (case executePipeline (executeCommand h rec) pipeline stdin s of
        Returned result s' \<Rightarrow> runPipelines h rec rest (stdout result) result s'
      | other \<Rightarrow> other)"

definition commandCountMessage :: "'fs Host \<Rightarrow> string" where
  "commandCountMessage h =
     ''bash: maximum command count ('' @ showInt (maxCommandCount h)
       @ '') exceeded (possible infinite loop). Increase with maxCommandCount option.\<newline>''"

text \<open>The body of \<^verbatim>\<open>exec\<close>; \<open>rec\<close> is what a nested \<^verbatim>\<open>this.exec\<close> call runs.\<close>

definition execBody :: "'fs Host \<Rightarrow> 'fs ExecFn \<Rightarrow> 'fs ExecFn" where
  "execBody h rec s0 commandLine =
     (let s1 = (if callDepth s0 = 0 then s0\<lparr>commandCount := 0\<rparr> else s0);
          s = s1\<lparr>commandCount := commandCount s1 + 1\<rparr>;
          trimmed = trim commandLine
      in if commandCount s > maxCommandCount h then
           Returned \<lparr>stdout = [], stderr = commandCountMessage h, exitCode = Finite 1\<rparr> s
         else if trimmed = [] then Returned emptyResult s
         else if startsWith trimmed ''if '' \<or> startsWith trimmed ''if;'' \<or> trimmed = ''if'' then
           executeIfStatement h rec s trimmed
         else if startsWith trimmed ''for '' then executeForLoop h rec s trimmed
         else if startsWith trimmed ''while '' then executeWhileLoop h rec s trimmed
         else if startsWith trimmed ''until '' then executeUntilLoop h rec s trimmed
         else
           (case parseFunctionDefinition trimmed of
              Some (name, body) \<Rightarrow>
                Returned emptyResult (s\<lparr>functions := AList.update name body (functions s)\<rparr>)
            | None \<Rightarrow>
                runPipelines h rec (parserParse h (env s) commandLine) [] emptyResult s))"

text \<open>
  \<^verbatim>\<open>exec\<close> with a bound on the nesting of the calls it makes to itself (through function
  bodies, conditions, loop bodies and the callback given to commands).
\<close>

primrec exec :: "'fs Host \<Rightarrow> nat \<Rightarrow> 'fs ExecFn" where
  "exec h 0 = (\<lambda>s commandLine. OutOfFuel)"
| "exec h (Suc n) = execBody h (exec h n)"

section \<open>The export builtin module\<close>

text \<open>
  \<^verbatim>\<open>handleExport(ctx, args)\<close> of the builtin module works on \<^verbatim>\<open>ctx.state.env\<close>, an object
  of type \<^verbatim>\<open>Record<string, string>\<close>: an ordinary object as above, whose own properties hold
  strings. The order of \<^verbatim>\<open>localeCompare\<close> depends on the locale and is a parameter. For a
  consistent comparison function \<^verbatim>\<open>sort\<close> is a stable sort, modelled as insertion of each
  entry behind the entries that do not compare greater.
\<close>

type_synonym StateEnv = "(string \<times> string) list"

definition isExportFlag :: "string \<Rightarrow> bool" where
  "isExportFlag arg \<longleftrightarrow> arg = ''-n'' \<or> arg = ''-p'' \<or> arg = ''--''"

fun insertEntry ::
  "(string \<Rightarrow> string \<Rightarrow> int) \<Rightarrow> string \<times> string \<Rightarrow> (string \<times> string) list
     \<Rightarrow> (string \<times> string) list" where
  "insertEntry localeCompare x [] = [x]"
| "insertEntry localeCompare x (y # ys) =
     (if localeCompare (fst x) (fst y) < 0 then x # y # ys
      else y # insertEntry localeCompare x ys)"

definition sortEntries ::
  "(string \<Rightarrow> string \<Rightarrow> int) \<Rightarrow> (string \<times> string) list \<Rightarrow> (string \<times> string) list" where
  "sortEntries localeCompare xs = foldl (\<lambda>acc x. insertEntry localeCompare x acc) [] xs"

text \<open>\<^verbatim>\<open>value.replace(/'/g, "'\\''")\<close>\<close>

definition escapeQuotes :: "string \<Rightarrow> string" where
  "escapeQuotes v =
     concat (map (\<lambda>c. if c = CHR 0x27 then [CHR 0x27, CHR 0x5C, CHR 0x27, CHR 0x27] else [c]) v)"

definition exportLine :: "string \<times> string \<Rightarrow> string" where
  "exportLine entry =
     ''declare -x '' @ fst entry @ ''='' @ [CHR 0x27] @ escapeQuotes (snd entry) @ [CHR 0x27]
       @ ''\<newline>''"

definition listedEntries :: "StateEnv \<Rightarrow> (string \<times> string) list" where
  "listedEntries e =
     filter (\<lambda>entry. \<not> startsWith (fst entry) ''BASH_ALIAS_'') (objectEntries e)"

definition exportOne :: "StateEnv \<Rightarrow> string \<Rightarrow> StateEnv" where
  "exportOne e arg =
     (if CHR ''='' \<in> set arg then envSet e (beforeEq arg) (afterEq arg)
      else if \<not> envHas e arg then envSet e arg [] else e)"

definition handleExportBuiltin ::
  "(string \<Rightarrow> string \<Rightarrow> int) \<Rightarrow> StateEnv \<Rightarrow> string list \<Rightarrow> ExecResult \<times> StateEnv" where
  "handleExportBuiltin localeCompare e a =
     (let unexport = (''-n'' \<in> set a);
          processedArgs = filter (\<lambda>arg. \<not> isExportFlag arg) a
      in if processedArgs = [] \<and> \<not> unexport then
           (\<lparr>stdout = concat (map exportLine (sortEntries localeCompare (listedEntries e))),
             stderr = [], exitCode = Finite 0\<rparr>, e)
         else if unexport then
           (emptyResult, foldl (\<lambda>acc arg. envDelete acc (beforeEq arg)) e processedArgs)
         else (emptyResult, foldl exportOne e processedArgs))"

section \<open>The in-memory file system\<close>

text \<open>
  \<^verbatim>\<open>VirtualFs\<close>: a map from normalized paths to entries. Only the operations the engine
  calls are modelled. The modes are \<^verbatim>\<open>0o755\<close> = 493 for a directory and \<^verbatim>\<open>0o644\<close> = 420
  for a file.
\<close>

datatype FsEntry = FileEntry string nat | DirectoryEntry nat

type_synonym VirtualFs = "(string \<times> FsEntry) list"

text \<open>\<^verbatim>\<open>s.split("/")\<close>\<close>

fun splitSlashFrom :: "string \<Rightarrow> string \<Rightarrow> string list" where
  "splitSlashFrom cur [] = [cur]"
| "splitSlashFrom cur (c # cs) =
     (if c = CHR ''/'' then cur # splitSlashFrom [] cs else splitSlashFrom (cur @ [c]) cs)"

fun resolveParts :: "string list \<Rightarrow> string list \<Rightarrow> string list" where
  "resolveParts resolved [] = resolved"
| "resolveParts resolved (part # rest) =
     (if part = ''..'' then resolveParts (butlast resolved) rest
      else resolveParts (resolved @ [part]) rest)"

definition pathParts :: "string \<Rightarrow> string list" where
  "pathParts path =
     (let normalized = (if endsWith path ''/'' \<and> path \<noteq> ''/'' then butlast path else path);
          normalized = (if startsWith normalized ''/'' then normalized else CHR ''/'' # normalized)
      in resolveParts [] (filter (\<lambda>p. p \<noteq> [] \<and> p \<noteq> ''.'') (splitSlashFrom [] normalized)))"

definition pathOfParts :: "string list \<Rightarrow> string" where
  "pathOfParts ps = CHR ''/'' # join ''/'' ps"

definition normalizePath :: "string \<Rightarrow> string" where
  "normalizePath path = (if path = [] \<or> path = ''/'' then ''/'' else pathOfParts (pathParts path))"

text \<open>
  \<^verbatim>\<open>ensureParentDirs\<close> walks up through \<^verbatim>\<open>dirname\<close> until the root or a known path; on a
  normalized path \<^verbatim>\<open>dirname\<close> drops the last part.
\<close>

function ensureParentDirs :: "VirtualFs \<Rightarrow> string list \<Rightarrow> VirtualFs" where
  "ensureParentDirs d ps =
     (let dir = butlast ps
      in if dir = [] then d
         else if map_of d (pathOfParts dir) \<noteq> None then d
         else AList.update (pathOfParts dir) (DirectoryEntry 493) (ensureParentDirs d dir))"
  by pat_completeness auto
termination
proof (relation "measure (\<lambda>(d, ps). length ps)")
  show "wf (measure (\<lambda>(d :: VirtualFs, ps :: string list). length ps))" by simp
next
  fix d :: VirtualFs and ps dir :: "string list"
  assume "dir = butlast ps" and "dir \<noteq> []"
  then have "ps \<noteq> []" by auto
  then have "length (butlast ps) < length ps" by (cases ps rule: rev_cases) auto
  with \<open>dir = butlast ps\<close>
  show "((d, dir), (d, ps)) \<in> measure (\<lambda>(d, ps). length ps)" by simp
qed

declare ensureParentDirs.simps [simp del]

definition writeFileSync :: "VirtualFs \<Rightarrow> string \<Rightarrow> string \<Rightarrow> VirtualFs" where
  "writeFileSync d path content =
     AList.update (normalizePath path) (FileEntry content 420)
       (ensureParentDirs d (pathParts path))"

definition vfsReadFile :: "VirtualFs \<Rightarrow> string \<Rightarrow> string + string" where
  "vfsReadFile d path =
     (case map_of d (normalizePath path) of
        None \<Rightarrow> Inl (''ENOENT: no such file or directory, open '' @ [CHR 0x27] @ path @ [CHR 0x27])
      | Some (DirectoryEntry _) \<Rightarrow>
          Inl (''EISDIR: illegal operation on a directory, read '' @ [CHR 0x27] @ path @ [CHR 0x27])
      | Some (FileEntry content _) \<Rightarrow> Inr content)"

definition vfsWriteFile :: "VirtualFs \<Rightarrow> string \<Rightarrow> string \<Rightarrow> string + VirtualFs" where
  "vfsWriteFile d path content = Inr (writeFileSync d path content)"

definition vfsAppendFile :: "VirtualFs \<Rightarrow> string \<Rightarrow> string \<Rightarrow> string + VirtualFs" where
  "vfsAppendFile d path content =
     (case map_of d (normalizePath path) of
        Some (DirectoryEntry _) \<Rightarrow>
          Inl (''EISDIR: illegal operation on a directory, write '' @ [CHR 0x27] @ path @ [CHR 0x27])
      | Some (FileEntry currentContent _) \<Rightarrow> Inr (writeFileSync d path (currentContent @ content))
      | None \<Rightarrow> Inr (writeFileSync d path content))"

definition vfsStat :: "VirtualFs \<Rightarrow> string \<Rightarrow> string + bool" where
  "vfsStat d path =
     (case map_of d (normalizePath path) of
        None \<Rightarrow> Inl (''ENOENT: no such file or directory, stat '' @ [CHR 0x27] @ path @ [CHR 0x27])
      | Some (DirectoryEntry _) \<Rightarrow> Inr True
      | Some (FileEntry _ _) \<Rightarrow> Inr False)"

definition vfsResolvePath :: "VirtualFs \<Rightarrow> string \<Rightarrow> string \<Rightarrow> string" where
  "vfsResolvePath d base path =
     (if startsWith path ''/'' then normalizePath path
      else normalizePath (if base = ''/'' then CHR ''/'' # path else base @ ''/'' @ path))"

text \<open>A new \<^verbatim>\<open>VirtualFs\<close> without initial files holds the root directory.\<close>

definition emptyVirtualFs :: VirtualFs where
  "emptyVirtualFs = [(''/'', DirectoryEntry 493)]"

section \<open>The echo command\<close>

text \<open>\<^verbatim>\<open>s.replace(/pat/g, rep)\<close> for a pattern that is a fixed, non-empty text.\<close>

function replaceAll :: "string \<Rightarrow> string \<Rightarrow> string \<Rightarrow> string" where
  "replaceAll pat rep s =
     (if s = [] \<or> pat = [] then s
      else if take (length pat) s = pat then rep @ replaceAll pat rep (drop (length pat) s)
      else hd s # replaceAll pat rep (tl s))"
  by pat_completeness auto
termination
  by (relation "measure (\<lambda>(pat, rep, s). length s)") auto

declare replaceAll.simps [simp del]

fun echoFlags :: "bool \<Rightarrow> bool \<Rightarrow> string list \<Rightarrow> bool \<times> bool \<times> string list" where
  "echoFlags noNewline interpretEscapes [] = (noNewline, interpretEscapes, [])"
| "echoFlags noNewline interpretEscapes (arg # rest) =
     (if arg = ''-n'' then echoFlags True interpretEscapes rest
      else if arg = ''-e'' then echoFlags noNewline True rest
      else if arg = ''-E'' then echoFlags noNewline False rest
      else if arg = ''-ne'' \<or> arg = ''-en'' then echoFlags True True rest
      else (noNewline, interpretEscapes, arg # rest))"

definition echoEscapes :: "string \<Rightarrow> string" where
  "echoEscapes output =
     (let placeholder = [CHR 0x00] @ ''BACKSLASH'' @ [CHR 0x00];
          bs = CHR 0x5C
      in replaceAll placeholder [bs]
          (replaceAll [bs, CHR ''v''] [CHR 0x0B]
            (replaceAll [bs, CHR ''f''] [CHR 0x0C]
              (replaceAll [bs, CHR ''b''] [CHR 0x08]
                (replaceAll [bs, CHR ''a''] [CHR 0x07]
                  (replaceAll [bs, CHR ''r''] [CHR 0x0D]
                    (replaceAll [bs, CHR ''t''] [CHR 0x09]
                      (replaceAll [bs, CHR ''n''] [CHR 0x0A]
                        (replaceAll [bs, bs] placeholder output)))))))))"

definition echoOutput :: "string list \<Rightarrow> ExecResult" where
  "echoOutput a =
     (case echoFlags False False a of
        (noNewline, interpretEscapes, rest) \<Rightarrow>
          (let output = join '' '' rest;
               output = (if interpretEscapes then echoEscapes output else output);
               output = (if noNewline then output else output @ ''\<newline>'')
           in \<lparr>stdout = output, stderr = [], exitCode = Finite 0\<rparr>))"

definition echoCommand :: "'fs Command" where
  "echoCommand rec a stdin s = Returned (echoOutput a) s"

section \<open>An instance to run examples on\<close>

text \<open>
  Modelled from the spec: \<^verbatim>\<open>GlobExpander.expandArgs\<close>, whose code is not part of the engine,
  on arguments none of which matches a path: an argument without \<^verbatim>\<open>*\<close>, \<^verbatim>\<open>?\<close> or \<^verbatim>\<open>[\<close> is
  not a pattern, and a pattern matching nothing is left as the literal token.
\<close>

definition literalGlob :: "'fs \<Rightarrow> string \<Rightarrow> string list \<Rightarrow> bool list \<Rightarrow> string list" where
  "literalGlob f dir a qs = a"

text \<open>
  Modelled from the spec: \<^verbatim>\<open>ShellParser.parse\<close>, whose code is not part of the engine, given
  by a table from the lines of an example to the pipelines the statement parser of the spec
  makes of them: the line is split at \<^verbatim>\<open>|\<close>, and within a segment at \<^verbatim>\<open>&&\<close>, \<^verbatim>\<open>||\<close> and \<^verbatim>\<open>;\<close>,
  each stage recording the operator in front of it.
\<close>

definition parseTable :: "(string \<times> Pipeline list) list \<Rightarrow> Env \<Rightarrow> string \<Rightarrow> Pipeline list" where
  "parseTable tab e line = (case map_of tab line of Some ps \<Rightarrow> ps | None \<Rightarrow> [])"

text \<open>A stage of unquoted words without redirections and without \<^verbatim>\<open>!\<close>.\<close>

definition stageOf :: "string \<Rightarrow> string \<Rightarrow> string list \<Rightarrow> PipelineStage" where
  "stageOf op cmd a =
     \<lparr>parsed = \<lparr>command = cmd, args = a, quotedArgs = map (\<lambda>_. False) a, redirections = []\<rparr>,
      operator = op, negationCount = 0\<rparr>"

text \<open>
  An instance with the default limits on a \<^verbatim>\<open>VirtualFs\<close>, for a registry and a parser. The
  example lines are no compound statements, so their scanners are never reached; they
  reject every input here.
\<close>

definition exampleHost ::
  "(string \<Rightarrow> VirtualFs Command option) \<Rightarrow> (Env \<Rightarrow> string \<Rightarrow> Pipeline list) \<Rightarrow> VirtualFs Host" where
  "exampleHost reg parser =
     \<lparr>maxCallDepth = 100, maxCommandCount = 10000, maxLoopIterations = 10000,
      registry = reg, parserParse = parser, globExpandArgs = literalGlob,
      fsReadFile = vfsReadFile, fsWriteFile = vfsWriteFile, fsAppendFile = vfsAppendFile,
      fsStat = vfsStat, fsResolvePath = vfsResolvePath,
      parseIfStatement = (\<lambda>input. Inl ''bash: syntax error near unexpected token\<newline>''),
      matchFor = (\<lambda>input. None), matchWhile = (\<lambda>input. None), matchUntil = (\<lambda>input. None)\<rparr>"

text \<open>The state of \<^verbatim>\<open>new BashEnv({files: {}})\<close>.\<close>

definition newShell :: "VirtualFs ShellState" where
  "newShell =
     \<lparr>fs = emptyVirtualFs, cwd = ''/'',
      env = [(''HOME'', Str ''/''), (''PATH'', Str ''/bin:/usr/bin'')],
      functions = [], previousDir = ''/home/user'', localScopes = [], callDepth = 0,
      commandCount = 0\<rparr>"

text \<open>An order of names for the examples: by character codes, a shorter prefix first.\<close>

fun byCharCodes :: "string \<Rightarrow> string \<Rightarrow> int" where
  "byCharCodes [] [] = 0"
| "byCharCodes [] (b # bs) = - 1"
| "byCharCodes (a # as) [] = 1"
| "byCharCodes (a # as) (b # bs) =
     (if (of_char a :: nat) < of_char b then - 1
      else if (of_char b :: nat) < of_char a then 1
      else byCharCodes as bs)"

text \<open>
  Modelled from the spec: the \<^verbatim>\<open>cat\<close> command, whose code is not under the sources read
  here, as far as the examples of the spec use it. Without arguments it copies its standard
  input to its standard output (\<^verbatim>\<open>echo hi | cat | cat\<close> prints \<^verbatim>\<open>hi\<close>); a file that cannot be
  read gives a message on standard error and exit code 1, with empty standard output
  (\<^verbatim>\<open>cat /nonexistent && echo second\<close>).
\<close>

fun catFiles :: "VirtualFs ShellState \<Rightarrow> string list \<Rightarrow> ExecResult \<Rightarrow> ExecResult" where
  "catFiles s [] acc = acc"
| "catFiles s (file # files) acc =
     (case vfsReadFile (fs s) (vfsResolvePath (fs s) (cwd s) file) of
        Inr content \<Rightarrow> catFiles s files (acc\<lparr>stdout := stdout acc @ content\<rparr>)
      | Inl _ \<Rightarrow>
          catFiles s files
            (acc\<lparr>stderr := stderr acc @ ''cat: '' @ file @ '': No such file or directory\<newline>'',
                 exitCode := Finite 1\<rparr>))"

definition catCommand :: "VirtualFs Command" where
  "catCommand rec a stdin s =
     (if a = [] then Returned \<lparr>stdout = stdin, stderr = [], exitCode = Finite 0\<rparr> s
      else Returned (catFiles s a emptyResult) s)"

definition echoAndCat :: "string \<Rightarrow> VirtualFs Command option" where
  "echoAndCat = [''echo'' \<mapsto> echoCommand, ''cat'' \<mapsto> catCommand]"

text \<open>
  A command of the kind \<^verbatim>\<open>registerCommand\<close> accepts, which uses the \<^verbatim>\<open>exec\<close> callback of its
  context: it hands its arguments, joined by blanks, to the callback and returns what that
  returns.
\<close>

definition runCommand :: "'fs Command" where
  "runCommand rec a stdin s = rec s (join '' '' a)"

definition echoAndRun :: "string \<Rightarrow> VirtualFs Command option" where
  "echoAndRun = [''echo'' \<mapsto> echoCommand, ''run'' \<mapsto> runCommand]"

section \<open>Observing a run\<close>

text \<open>
  An executor that also keeps the list of the calls made to it: which command, with which
  standard input. Running \<^verbatim>\<open>executePipeline\<close> on it tells which stages ran and what each
  received.
\<close>

definition logged ::
  "('st \<Rightarrow> ParsedCommand \<Rightarrow> string \<Rightarrow> (ExecResult, 'st) run)
     \<Rightarrow> 'st \<times> (ParsedCommand \<times> string) list \<Rightarrow> ParsedCommand \<Rightarrow> string
     \<Rightarrow> (ExecResult, 'st \<times> (ParsedCommand \<times> string) list) run" where
  "logged ec sl pc inp =
     (case ec (fst sl) pc inp of
        Returned r s' \<Rightarrow> Returned r (s', snd sl @ [(pc, inp)])
      | Threw msg s' \<Rightarrow> Threw msg (s', snd sl @ [(pc, inp)])
      | OutOfFuel \<Rightarrow> OutOfFuel)"

fun finalState :: "('a, 'st) run \<Rightarrow> 'st option" where
  "finalState (Returned r s) = Some s"
| "finalState (Threw msg s) = Some s"
| "finalState OutOfFuel = None"

definition callsDuring :: "('a, 'st \<times> 'c list) run \<Rightarrow> 'c list option" where
  "callsDuring r = map_option snd (finalState r)"

text \<open>
  What an odd number of \<^verbatim>\<open>!\<close> makes of an exit code, and of the result of a run.
\<close>

definition negated :: "nat \<Rightarrow> number \<Rightarrow> number" where
  "negated n code = (if odd n then (if code = Finite 0 then Finite 1 else Finite 0) else code)"

fun withExitCode :: "(number \<Rightarrow> number) \<Rightarrow> (ExecResult, 'st) run \<Rightarrow> (ExecResult, 'st) run" where
  "withExitCode f (Returned r s) = Returned (r\<lparr>exitCode := f (exitCode r)\<rparr>) s"
| "withExitCode f (Threw msg s) = Threw msg s"
| "withExitCode f OutOfFuel = OutOfFuel"

section \<open>Lines handed to the parser\<close>


section \<open>Variable expansion: the braced default\<close>

lemma takeWhile_app_first:
  "x \<notin> set xs \<Longrightarrow> takeWhile (\<lambda>c. c \<noteq> x) (xs @ x # ys) = xs"
  by (induction xs) auto

lemma dropWhile_app_first:
  "x \<notin> set xs \<Longrightarrow> dropWhile (\<lambda>c. c \<noteq> x) (xs @ x # ys) = x # ys"
  by (induction xs) auto

lemma defaultMatch_name_default:
  assumes "name \<noteq> []" "CHR '':'' \<notin> set name"
    "CHR 0x0A \<notin> set dflt" "CHR 0x0D \<notin> set dflt"
  shows "defaultMatch (name @ '':-'' @ dflt) = Some (name, dflt)"
  using assms
  by (simp add: defaultMatch_def takeWhile_app_first dropWhile_app_first)

text \<open>
  C10. In \<^verbatim>\<open>${NAME:-default}\<close> a variable that is set to the empty string counts as set:
  when the environment holds a string for the name, the expansion is that string, also
  when it is empty. The default is used only when the environment holds no string for the
  name: the expansion is then the default, except for a name that the environment object
  inherits from its prototype (\<^verbatim>\<open>toString\<close>, \<^verbatim>\<open>constructor\<close>, ...), which expands to the text
  of the inherited member. The name is any non-empty text without a colon or a closing
  brace, the default any text without a closing brace or a line terminator, and the
  expansion may stand in front of any other text.
\<close>

theorem braced_default_uses_own_empty_value:
  assumes "name \<noteq> []" and "CHR '':'' \<notin> set name" and "CHR ''}'' \<notin> set name"
    and "CHR ''}'' \<notin> set dflt" and "CHR 0x0A \<notin> set dflt" and "CHR 0x0D \<notin> set dflt"
  shows "expandVariables e (''${'' @ name @ '':-'' @ dflt @ ''}'' @ rest) =
           (case map_of e name of
              Some (Str v) \<Rightarrow> v
            | Some Inherited \<Rightarrow> (if isInherited name then memberText name else dflt)
            | None \<Rightarrow> (if isInherited name then memberText name else dflt))
           @ expandVariables e rest"
proof -
  let ?content = "name @ '':-'' @ dflt"
  have nb: "CHR ''}'' \<notin> set ?content" using assms by auto
  have tw: "takeWhile (\<lambda>x. x \<noteq> CHR ''}'') (?content @ CHR ''}'' # rest) = ?content"
    using nb by (rule takeWhile_app_first)
  have dw: "dropWhile (\<lambda>x. x \<noteq> CHR ''}'') (?content @ CHR ''}'' # rest) = CHR ''}'' # rest"
    using nb by (rule dropWhile_app_first)
  have dm: "defaultMatch ?content = Some (name, dflt)"
    using assms by (intro defaultMatch_name_default)
  have "expandVariables e (CHR ''$'' # CHR ''{'' # (?content @ CHR ''}'' # rest)) =
        envOr e name dflt @ expandVariables e rest"
    by (subst expandVariables.simps(3)) (simp only: tw dw dm Let_def, simp)
  then show ?thesis
    by (simp add: envOr_def envGet_def split: option.splits EnvValue.splits)
qed

theorem braced_default_uses_own_empty_value_witness:
  "expandVariables [(''NAME'', Str [])] ''${NAME:-fallback}'' = []
   \<and> expandVariables [(''OTHER'', Str ''x'')] ''${NAME:-fallback}'' = ''fallback''
   \<and> expandVariables [(''OTHER'', Str ''x'')] ''${toString:-fallback}''
       = ''function toString() { [native code] }''"
  using braced_default_uses_own_empty_value
          [of "''NAME''" "''fallback''" "[(''NAME'', Str [])]" "[]"]
        braced_default_uses_own_empty_value
          [of "''NAME''" "''fallback''" "[(''OTHER'', Str ''x'')]" "[]"]
        braced_default_uses_own_empty_value
          [of "''toString''" "''fallback''" "[(''OTHER'', Str ''x'')]" "[]"]
  by (simp add: isInherited_def objectPrototypeKeys_def memberText_def)

section \<open>Decimal numerals and the exit builtin\<close>

lemma digit_cases: "k < 10 \<Longrightarrow> k = 0 \<or> k = 1 \<or> k = 2 \<or> k = 3 \<or> k = 4 \<or> k = 5 \<or> k = 6 \<or> k = 7 \<or> k = 8 \<or> k = (9::nat)"
  by arith

lemma digitChar_props:
  "isDigit (digitChar d)" "\<not> isSpaceJS (digitChar d)" "digitChar d \<noteq> CHR ''-''"
  "digitChar d \<noteq> CHR ''+''" "digitChar d \<noteq> CHR ''$''"
  "int (of_char (digitChar d)) - 48 = int (d mod 10)"
proof -
  have "d mod 10 < 10" by simp
  then have c: "d mod 10 = 0 \<or> d mod 10 = 1 \<or> d mod 10 = 2 \<or> d mod 10 = 3 \<or> d mod 10 = 4 \<or> d mod 10 = 5
     \<or> d mod 10 = 6 \<or> d mod 10 = 7 \<or> d mod 10 = 8 \<or> d mod 10 = 9" by (rule digit_cases)
  show "isDigit (digitChar d)" using c unfolding digitChar_def isDigit_def by auto
  show "\<not> isSpaceJS (digitChar d)" using c unfolding digitChar_def isSpaceJS_def by auto
  show "digitChar d \<noteq> CHR ''-''" using c unfolding digitChar_def by auto
  show "digitChar d \<noteq> CHR ''+''" using c unfolding digitChar_def by auto
  show "digitChar d \<noteq> CHR ''$''" using c unfolding digitChar_def by auto
  show "int (of_char (digitChar d)) - 48 = int (d mod 10)" using c unfolding digitChar_def by auto
qed

lemma showNat_nonempty: "showNat n \<noteq> []"
  by (subst showNat.simps) simp

lemma showNat_digits: "list_all isDigit (showNat n)"
proof (induction n rule: showNat.induct)
  case (1 n)
  show ?case
  proof (cases "n < 10")
    case True
    then show ?thesis by (subst showNat.simps) (simp add: digitChar_props)
  next
    case False
    with 1 show ?thesis by (subst showNat.simps) (simp add: digitChar_props)
  qed
qed

lemma digitsValue_snoc: "digitsValue (ds @ [c]) = 10 * digitsValue ds + (int (of_char c) - 48)"
  by (simp add: digitsValue_def)

lemma digitsValue_showNat: "digitsValue (showNat n) = int n"
proof (induction n rule: showNat.induct)
  case (1 n)
  show ?case
  proof (cases "n < 10")
    case True
    then show ?thesis
      by (subst showNat.simps) (simp add: digitsValue_def digitChar_props)
  next
    case False
    with 1 have "digitsValue (showNat (n div 10)) = int (n div 10)" by simp
    with False show ?thesis
      by (subst showNat.simps) (simp add: digitsValue_snoc digitChar_props zdiv_int zmod_int)
  qed
qed

lemma hd_showNat_digit: "isDigit (hd (showNat n))"
  using showNat_digits[of n] showNat_nonempty[of n] by (cases "showNat n") auto

lemma isDigit_facts: "isDigit c \<Longrightarrow> \<not> isSpaceJS c \<and> c \<noteq> CHR ''-'' \<and> c \<noteq> CHR ''+'' \<and> c \<noteq> CHR ''$''"
  unfolding isDigit_def isSpaceJS_def by auto

lemma takeWhile_all: "list_all P xs \<Longrightarrow> takeWhile P xs = xs"
  by (induction xs) auto

lemma parseInt10_showNat: "n < 2 ^ 53 \<Longrightarrow> parseInt10 (showNat n) = Finite (int n)"
proof -
  assume small: "n < 2 ^ 53"
  let ?t = "showNat n"
  have ne: "?t \<noteq> []" by (rule showNat_nonempty)
  have hd: "\<not> isSpaceJS (hd ?t)" "hd ?t \<noteq> CHR ''-''" "hd ?t \<noteq> CHR ''+''"
    using isDigit_facts[OF hd_showNat_digit[of n]] by simp_all
  have dw: "dropWhile isSpaceJS ?t = ?t" using ne hd(1) by (cases ?t) auto
  have tw: "takeWhile isDigit ?t = ?t" using showNat_digits by (rule takeWhile_all)
  show ?thesis
    unfolding parseInt10_def Let_def dw
    using small by (simp add: ne hd tw digitsValue_showNat nearestDouble_def)
qed

lemma expandVariables_no_dollar: "CHR ''$'' \<notin> set t \<Longrightarrow> expandVariables e t = t"
proof (induction e t rule: expandVariables.induct)
  case (3 e c nextChar rest)
  from "3.prems" have c: "c \<noteq> CHR ''$''" and r: "CHR ''$'' \<notin> set (nextChar # rest)"
    by auto
  from "3.IH"(1)[OF c r] c show ?case
    by (subst expandVariables.simps(3)) simp
qed simp_all

lemma showNat_no_dollar: "CHR ''$'' \<notin> set (showNat n)"
  using showNat_digits[of n] isDigit_facts by (auto simp: list_all_iff)

text \<open>
  C3. The claim fails: \<^verbatim>\<open>exit 300\<close> on a new instance returns exit code 300. The line
  parses to the one stage \<^verbatim>\<open>exit\<close> with the argument \<^verbatim>\<open>300\<close>.
\<close>

theorem exit_code_out_of_range_counterexample:
  "exec (exampleHost Map.empty
           (parseTable [(''exit 300'', [\<lparr>commands = [stageOf [] ''exit'' [''300'']]\<rparr>])]))
     1 newShell ''exit 300''
   = Returned \<lparr>stdout = [], stderr = [], exitCode = Finite 300\<rparr> (newShell\<lparr>commandCount := 1\<rparr>)"
  by (simp add: exampleHost_def parseTable_def stageOf_def newShell_def execBody_def
      trim_def isSpaceJS_def startsWith_def isDigit_def isNameStart_def isNameChar_def
      parseFunctionDefinition_def nameThen_def executePipeline_def pipelineLoop.simps
      pipelineIter_def initialPipeVars_def executeCommand_def expandVariables.simps(3)
      expandArgList_def literalGlob_def exitBuiltin_def parseInt10_def digitsValue_def
      nearestDouble_def emptyResult_def quotedAt_def)

text \<open>Above \<open>2 ^ 53\<close> the argument of \<^verbatim>\<open>exit\<close> is rounded as a double is.\<close>

lemma exit_rounds_large_argument:
  "exitBuiltin [''9007199254740993'']
     = \<lparr>stdout = [], stderr = [], exitCode = Finite 9007199254740992\<rparr>"
proof -
  have b: "bitLength 9007199254740993 = 54"
    by (simp add: bitLength.simps)
  have c: "nearestDouble 9007199254740993 = Finite 9007199254740992"
    by (simp add: nearestDouble_def b Let_def)
  have "parseInt10 ''9007199254740993'' = Finite 9007199254740992"
    by (simp add: parseInt10_def digitsValue_def isSpaceJS_def isDigit_def c)
  then show ?thesis by (simp add: exitBuiltin_def)
qed

text \<open>
  C3, amended. The \<^verbatim>\<open>exit\<close> builtin returns as exit code the number its first argument
  parses to, without reducing it into 0..255: for every natural number \<open>n\<close> below \<open>2 ^ 53\<close>,
  the stage \<^verbatim>\<open>exit n\<close> (the decimal numeral, quoted or not, left alone by glob expansion)
  returns exit code \<open>n\<close> with empty output and an unchanged state, so the code is within
  0..255 exactly when \<open>n \<le> 255\<close>; without an argument the code is 0; with a non-empty
  argument that does not start with a number it is 1.
\<close>

theorem exit_builtin_returns_parsed_argument:
  assumes "n < 2 ^ 53"
    and "globExpandArgs h (fs s) (cwd s) [showNat n] qs = [showNat n]"
  shows "executeCommand h rec s
           \<lparr>command = ''exit'', args = [showNat n], quotedArgs = qs, redirections = []\<rparr> stdin
         = Returned \<lparr>stdout = [], stderr = [], exitCode = Finite (int n)\<rparr> s
       \<and> ((0 \<le> int n \<and> int n \<le> 255) \<longleftrightarrow> n \<le> 255)
       \<and> exitCode (exitBuiltin []) = Finite 0
       \<and> (\<forall>x xs. x \<noteq> [] \<longrightarrow> parseInt10 x = NaN \<longrightarrow> exitCode (exitBuiltin (x # xs)) = Finite 1)"
proof -
  have ex: "expandArgList (env s) [showNat n] qs = [showNat n]"
    by (simp add: expandArgList_def expandVariables_no_dollar showNat_no_dollar)
  have cmd: "expandVariables (env s) ''exit'' = ''exit''"
    by (rule expandVariables_no_dollar) simp
  have "executeCommand h rec s
           \<lparr>command = ''exit'', args = [showNat n], quotedArgs = qs, redirections = []\<rparr> stdin
         = Returned \<lparr>stdout = [], stderr = [], exitCode = Finite (int n)\<rparr> s"
    unfolding executeCommand_def
    by (simp add: ex cmd assms(2) startsWith_def exitBuiltin_def parseInt10_showNat[OF assms(1)]
        showNat_nonempty)
  moreover have "exitCode (exitBuiltin []) = Finite 0"
    by (simp add: exitBuiltin_def)
  moreover have "\<forall>x xs. x \<noteq> [] \<longrightarrow> parseInt10 x = NaN \<longrightarrow> exitCode (exitBuiltin (x # xs)) = Finite 1"
    by (simp add: exitBuiltin_def)
  ultimately show ?thesis by simp
qed

theorem exit_builtin_returns_parsed_argument_witness:
  "executeCommand (exampleHost Map.empty (parseTable [])) (exec (exampleHost Map.empty (parseTable [])) 0) newShell
     \<lparr>command = ''exit'', args = [''42''], quotedArgs = [False], redirections = []\<rparr> []
   = Returned \<lparr>stdout = [], stderr = [], exitCode = Finite 42\<rparr> newShell
   \<and> exitCode (exitBuiltin [''abc'']) = Finite 1"
proof -
  have n: "showNat 42 = ''42''"
    by (simp add: showNat.simps digitChar_def)
  have g: "globExpandArgs (exampleHost Map.empty (parseTable [])) (fs newShell) (cwd newShell)
             [showNat 42] [False] = [showNat 42]"
    by (simp add: exampleHost_def literalGlob_def)
  have p: "parseInt10 ''abc'' = NaN"
    by (simp add: parseInt10_def isSpaceJS_def isDigit_def)
  have b: "(42::nat) < 2 ^ 53" by simp
  from exit_builtin_returns_parsed_argument
         [OF b g, of "exec (exampleHost Map.empty (parseTable [])) 0" "[]"] p
  show ?thesis by (simp add: n)
qed

section \<open>The export builtin\<close>






















text \<open>The listing of that environment: \<^verbatim>\<open>HOME\<close> before \<^verbatim>\<open>PATH\<close>.\<close>

lemma export_listing_example:
  "handleExportBuiltin byCharCodes [(''PATH'', ''/bin''), (''HOME'', ''/'')] []
     = (\<lparr>stdout = ''declare -x HOME='' @ [CHR 0x27] @ ''/'' @ [CHR 0x27] @ ''\<newline>''
                  @ ''declare -x PATH='' @ [CHR 0x27] @ ''/bin'' @ [CHR 0x27] @ ''\<newline>'',
         stderr = [], exitCode = Finite 0\<rparr>, [(''PATH'', ''/bin''), (''HOME'', ''/'')])"
  by (simp add: handleExportBuiltin_def listedEntries_def startsWith_def sortEntries_def
      exportLine_def escapeQuotes_def objectEntries_def isArrayIndex_def isDigit_def)

section \<open>Pipelines\<close>

lemma callsDuring_simps [simp]:
  "callsDuring (Returned r (s, l)) = Some l"
  "callsDuring (Threw m (s, l)) = Some l"
  "callsDuring OutOfFuel = None"
  by (simp_all add: callsDuring_def)

lemma pipelineLoop_step:
  "i < length cmds \<Longrightarrow>
   pipelineLoop ec cmds init i v s =
     (case pipelineIter ec cmds init i v s of
        Returned v' s' \<Rightarrow> pipelineLoop ec cmds init (i + 1) v' s'
      | Threw msg s' \<Rightarrow> Threw msg s'
      | OutOfFuel \<Rightarrow> OutOfFuel)"
  by (subst pipelineLoop.simps) simp

lemma pipelineLoop_done:
  "\<not> i < length cmds \<Longrightarrow> pipelineLoop ec cmds init i v s = Returned v s"
  by (subst pipelineLoop.simps) simp

lemma pipelineIter_prefix:
  assumes "i < length pre" and "post \<noteq> [] \<longrightarrow> operator (hd post) \<noteq> []"
  shows "pipelineIter ec (pre @ post) init i v s = pipelineIter ec pre init i v s"
proof (cases "i + 1 < length pre")
  case True
  with assms show ?thesis by (simp add: pipelineIter_def nth_append Let_def cong: run.case_cong)
next
  case False
  with assms(1) have last: "i + 1 = length pre" by simp
  show ?thesis
  proof (cases post)
    case Nil
    then show ?thesis by simp
  next
    case (Cons p ps)
    with assms(2) have "operator p \<noteq> []" by simp
    with Cons last assms(1) show ?thesis
      by (simp add: pipelineIter_def nth_append Let_def cong: run.case_cong)
  qed
qed

lemma pipelineLoop_prefix:
  assumes "post \<noteq> [] \<longrightarrow> operator (hd post) \<noteq> []"
  shows "i \<le> length pre \<Longrightarrow>
         pipelineLoop ec (pre @ post) init i v s =
           (case pipelineLoop ec pre init i v s of
              Returned v' s' \<Rightarrow> pipelineLoop ec (pre @ post) init (length pre) v' s'
            | Threw msg s' \<Rightarrow> Threw msg s'
            | OutOfFuel \<Rightarrow> OutOfFuel)"
proof (induction "length pre - i" arbitrary: i v s)
  case 0
  then have "i = length pre" by simp
  then show ?case by (simp add: pipelineLoop_done)
next
  case (Suc k)
  then have lt: "i < length pre" by simp
  then have lt': "i < length (pre @ post)" by simp
  have it: "pipelineIter ec (pre @ post) init i v s = pipelineIter ec pre init i v s"
    using lt assms by (rule pipelineIter_prefix)
  have ih: "\<And>v' s'. pipelineLoop ec (pre @ post) init (i + 1) v' s' =
           (case pipelineLoop ec pre init (i + 1) v' s' of
              Returned v'' s'' \<Rightarrow> pipelineLoop ec (pre @ post) init (length pre) v'' s''
            | Threw msg s'' \<Rightarrow> Threw msg s''
            | OutOfFuel \<Rightarrow> OutOfFuel)"
    using Suc(1)[of "i + 1"] Suc(2) lt by simp
  show ?case
    unfolding pipelineLoop_step[OF lt'] pipelineLoop_step[OF lt] it
    by (cases "pipelineIter ec pre init i v s") (simp_all only: run.case ih)
qed

lemma pipelineLoop_first_ignores_count:
  "cmds \<noteq> [] \<Longrightarrow>
   pipelineLoop ec cmds init 0 (v\<lparr>currentNegationCount := x\<rparr>) s = pipelineLoop ec cmds init 0 v s"
  by (subst (1 2) pipelineLoop.simps) (simp add: pipelineIter_def Let_def)


lemma pipelineIter_mid:
  assumes "operator first = []" and "\<forall>st \<in> set rest. operator st = []"
    and "i + 1 < length (first # rest)"
  shows "pipelineIter ec (first\<lparr>negationCount := n\<rparr> # rest) init i
           (v\<lparr>currentNegationCount := n\<rparr>) s =
         (case ec s (parsed ((first # rest) ! i)) (if i > 0 then pstdin v else init) of
            Returned result s' \<Rightarrow>
              Returned (v\<lparr>pstdin := stdout result,
                          accumulatedStderr := accumulatedStderr v @ stderr result,
                          lastResult := result, currentNegationCount := n\<rparr>) s'
          | Threw msg s' \<Rightarrow> Threw msg s'
          | OutOfFuel \<Rightarrow> OutOfFuel)"
proof -
  have op: "operator ((first\<lparr>negationCount := n\<rparr> # rest) ! i) = []"
    "operator ((first\<lparr>negationCount := n\<rparr> # rest) ! (i + 1)) = []"
    using assms by (auto simp: nth_Cons')
  have pa: "parsed ((first\<lparr>negationCount := n\<rparr> # rest) ! i) = parsed ((first # rest) ! i)"
    by (simp add: nth_Cons')
  have nc: "i = 0 \<Longrightarrow> negationCount ((first\<lparr>negationCount := n\<rparr> # rest) ! i) = n"
    by simp
  show ?thesis
    unfolding pipelineIter_def Let_def op pa
    using assms(3) nc by (cases "i = 0") (auto split: run.splits)
qed

lemma pipelineIter_last:
  assumes "operator first = []" and "\<forall>st \<in> set rest. operator st = []"
    and "i + 1 = length (first # rest)"
  shows "pipelineIter ec (first\<lparr>negationCount := n\<rparr> # rest) init i
           (v\<lparr>currentNegationCount := n\<rparr>) s =
         (case ec s (parsed ((first # rest) ! i)) (if i > 0 then pstdin v else init) of
            Returned result s' \<Rightarrow>
              Returned (v\<lparr>accumulatedStdout := accumulatedStdout v @ stdout result,
                          accumulatedStderr := accumulatedStderr v @ stderr result,
                          lastResult := result\<lparr>exitCode := negated n (exitCode result)\<rparr>,
                          currentNegationCount := n\<rparr>) s'
          | Threw msg s' \<Rightarrow> Threw msg s'
          | OutOfFuel \<Rightarrow> OutOfFuel)"
proof -
  have op: "operator ((first\<lparr>negationCount := n\<rparr> # rest) ! i) = []"
    using assms by (auto simp: nth_Cons')
  have pa: "parsed ((first\<lparr>negationCount := n\<rparr> # rest) ! i) = parsed ((first # rest) ! i)"
    by (simp add: nth_Cons')
  have nc: "i = 0 \<Longrightarrow> negationCount ((first\<lparr>negationCount := n\<rparr> # rest) ! i) = n"
    by simp
  have md: "(n mod 2 = 1) = odd n" by (simp add: odd_iff_mod_2_eq_one)
  show ?thesis
    unfolding pipelineIter_def Let_def op pa
    using assms(3) nc
    by (cases "i = 0") (auto split: run.splits simp: negated_def md)
qed


lemma pipelineLoop_negation:
  assumes "operator first = []" and "\<forall>st \<in> set rest. operator st = []"
  shows "i < length (first # rest) \<Longrightarrow>
         pipelineLoop ec (first\<lparr>negationCount := n\<rparr> # rest) init i
             (v\<lparr>currentNegationCount := n\<rparr>) s =
           (case pipelineLoop ec (first\<lparr>negationCount := 0\<rparr> # rest) init i
                   (v\<lparr>currentNegationCount := 0\<rparr>) s of
              Returned v' s' \<Rightarrow>
                Returned (v'\<lparr>currentNegationCount := n,
                             lastResult := (lastResult v')
                               \<lparr>exitCode := negated n (exitCode (lastResult v'))\<rparr>\<rparr>) s'
            | Threw msg s' \<Rightarrow> Threw msg s'
            | OutOfFuel \<Rightarrow> OutOfFuel)"
proof (induction "length (first # rest) - i" arbitrary: i v s)
  case 0
  then show ?case by simp
next
  case (Suc k)
  let ?cn = "first\<lparr>negationCount := n\<rparr> # rest"
  let ?c0 = "first\<lparr>negationCount := 0\<rparr> # rest"
  let ?r = "ec s (parsed ((first # rest) ! i)) (if i > 0 then pstdin v else init)"
  have lt: "i < length ?cn" "i < length ?c0" using Suc by simp_all
  show ?case
  proof (cases "i + 1 < length (first # rest)")
    case True
    have ih: "\<And>w s'. pipelineLoop ec ?cn init (i + 1) (w\<lparr>currentNegationCount := n\<rparr>) s' =
           (case pipelineLoop ec ?c0 init (i + 1) (w\<lparr>currentNegationCount := 0\<rparr>) s' of
              Returned v'' s'' \<Rightarrow>
                Returned (v''\<lparr>currentNegationCount := n,
                             lastResult := (lastResult v'')
                               \<lparr>exitCode := negated n (exitCode (lastResult v''))\<rparr>\<rparr>) s''
            | Threw msg s'' \<Rightarrow> Threw msg s''
            | OutOfFuel \<Rightarrow> OutOfFuel)"
      using Suc(1)[of "i + 1"] Suc(2) True by simp
    show ?thesis
    proof (cases ?r)
      case (Returned result s')
      let ?w = "v\<lparr>pstdin := stdout result,
                  accumulatedStderr := accumulatedStderr v @ stderr result,
                  lastResult := result\<rparr>"
      have a: "pipelineIter ec ?cn init i (v\<lparr>currentNegationCount := n\<rparr>) s
                 = Returned (?w\<lparr>currentNegationCount := n\<rparr>) s'"
        unfolding pipelineIter_mid[OF assms True] Returned by simp
      have b: "pipelineIter ec ?c0 init i (v\<lparr>currentNegationCount := 0\<rparr>) s
                 = Returned (?w\<lparr>currentNegationCount := 0\<rparr>) s'"
        unfolding pipelineIter_mid[OF assms True] Returned by simp
      show ?thesis
        unfolding pipelineLoop_step[OF lt(1)] pipelineLoop_step[OF lt(2)] a b run.case
        by (rule ih)
    next
      case (Threw msg s')
      show ?thesis
        unfolding pipelineLoop_step[OF lt(1)] pipelineLoop_step[OF lt(2)]
          pipelineIter_mid[OF assms True] Threw by simp
    next
      case OutOfFuel
      show ?thesis
        unfolding pipelineLoop_step[OF lt(1)] pipelineLoop_step[OF lt(2)]
          pipelineIter_mid[OF assms True] OutOfFuel by simp
    qed
  next
    case False
    then have last: "i + 1 = length (first # rest)" using lt by simp
    have dn: "\<not> Suc i < length ?cn" "\<not> Suc i < length ?c0" using last by simp_all
    have n0: "negated 0 c = c" for c by (simp add: negated_def)
    show ?thesis
      unfolding pipelineLoop_step[OF lt(1)] pipelineLoop_step[OF lt(2)]
        pipelineIter_last[OF assms last]
      by (cases ?r) (simp_all add: pipelineLoop_done[OF dn(1)] pipelineLoop_done[OF dn(2)] n0)
  qed
qed

lemma executePipeline_negation:
  assumes "operator first = []" and "\<forall>st \<in> set rest. operator st = []"
  shows "executePipeline ec \<lparr>commands = first\<lparr>negationCount := n\<rparr> # rest\<rparr> init s
         = withExitCode (negated n)
             (executePipeline ec \<lparr>commands = first\<lparr>negationCount := 0\<rparr> # rest\<rparr> init s)"
proof -
  let ?v = "initialPipeVars init"
  have a: "pipelineLoop ec (first\<lparr>negationCount := n\<rparr> # rest) init 0 ?v s
         = pipelineLoop ec (first\<lparr>negationCount := n\<rparr> # rest) init 0
             (?v\<lparr>currentNegationCount := n\<rparr>) s"
    by (simp add: pipelineLoop_first_ignores_count)
  have b: "pipelineLoop ec (first\<lparr>negationCount := 0\<rparr> # rest) init 0 ?v s
         = pipelineLoop ec (first\<lparr>negationCount := 0\<rparr> # rest) init 0
             (?v\<lparr>currentNegationCount := 0\<rparr>) s"
    by (simp add: pipelineLoop_first_ignores_count)
  have c: "0 < length (first # rest)" by simp
  have d: "pipelineLoop ec (first\<lparr>negationCount := n\<rparr> # rest) init 0 ?v s =
           (case pipelineLoop ec (first\<lparr>negationCount := 0\<rparr> # rest) init 0 ?v s of
              Returned v' s' \<Rightarrow>
                Returned (v'\<lparr>currentNegationCount := n,
                             lastResult := (lastResult v')
                               \<lparr>exitCode := negated n (exitCode (lastResult v'))\<rparr>\<rparr>) s'
            | Threw msg s' \<Rightarrow> Threw msg s'
            | OutOfFuel \<Rightarrow> OutOfFuel)"
    using pipelineLoop_negation[OF assms c, of ec n init ?v s] a b by simp
  show ?thesis
    unfolding executePipeline_def Pipeline.simps d
    by (cases "pipelineLoop ec (first\<lparr>negationCount := 0\<rparr> # rest) init 0 ?v s") simp_all
qed

lemma pipelineIter_logged_calls:
  assumes "i < length cmds"
    and "ec s (parsed (cmds ! i)) (if operator (cmds ! i) = [] \<and> 0 < i then pstdin v else init)
           \<noteq> OutOfFuel"
  shows "callsDuring (pipelineIter (logged ec) cmds init i v (s, log)) =
           Some (log @
             (if (operator (cmds ! i) = ''&&'' \<and> exitCode (lastResult v) \<noteq> Finite 0)
                 \<or> (operator (cmds ! i) = ''||'' \<and> exitCode (lastResult v) = Finite 0) then []
              else [(parsed (cmds ! i),
                     if operator (cmds ! i) = [] \<and> i > 0 then pstdin v else init)]))"
proof (cases "operator (cmds ! i) = [] \<and> 0 < i")
  case True
  with assms(2) show ?thesis
    unfolding pipelineIter_def Let_def logged_def by (auto split: run.splits)
next
  case False
  with assms(2) show ?thesis
    unfolding pipelineIter_def Let_def logged_def by (auto split: run.splits)
qed

lemma callsDuring_executePipeline:
  "callsDuring (executePipeline ec p init s) =
     callsDuring (pipelineLoop ec (commands p) init 0 (initialPipeVars init) s)"
  by (cases "pipelineLoop ec (commands p) init 0 (initialPipeVars init) s")
     (simp_all add: executePipeline_def callsDuring_def)

lemma callsDuring_last_iteration:
  assumes "i + 1 = length cmds"
  shows "callsDuring (pipelineLoop ec cmds init i v s) = callsDuring (pipelineIter ec cmds init i v s)"
proof -
  have lt: "i < length cmds" using assms by simp
  have dn: "\<not> Suc i < length cmds" using assms by simp
  show ?thesis
    unfolding pipelineLoop_step[OF lt]
    by (cases "pipelineIter ec cmds init i v s")
       (simp_all add: pipelineLoop_done[OF dn] callsDuring_def)
qed

lemma adjusted_code_gates_next:
  assumes "operator nx \<noteq> []" and "ec s' (parsed nx) init \<noteq> OutOfFuel"
    and "executePipeline (logged ec) \<lparr>commands = pre\<rparr> init (s, []) = Returned r (s', log)"
  shows "callsDuring (executePipeline (logged ec) \<lparr>commands = pre @ [nx]\<rparr> init (s, [])) =
           Some (log @
             (if (operator nx = ''&&'' \<and> exitCode r \<noteq> Finite 0)
                 \<or> (operator nx = ''||'' \<and> exitCode r = Finite 0) then []
              else [(parsed nx, init)]))"
proof -
  let ?v0 = "initialPipeVars init"
  from assms(3) obtain v' where
    lp: "pipelineLoop (logged ec) pre init 0 ?v0 (s, []) = Returned v' (s', log)"
    and ex: "exitCode (lastResult v') = exitCode r"
    by (cases "pipelineLoop (logged ec) pre init 0 ?v0 (s, [])")
       (auto simp: executePipeline_def)
  have hd: "[nx] \<noteq> [] \<longrightarrow> operator (hd [nx]) \<noteq> []" using assms(1) by simp
  have "pipelineLoop (logged ec) (pre @ [nx]) init 0 ?v0 (s, [])
        = pipelineLoop (logged ec) (pre @ [nx]) init (length pre) v' (s', log)"
    using pipelineLoop_prefix[OF hd, of 0 pre "logged ec" init ?v0 "(s, [])"] lp by simp
  moreover have "callsDuring (pipelineLoop (logged ec) (pre @ [nx]) init (length pre) v' (s', log))
        = callsDuring (pipelineIter (logged ec) (pre @ [nx]) init (length pre) v' (s', log))"
    by (rule callsDuring_last_iteration) simp
  moreover have "callsDuring (pipelineIter (logged ec) (pre @ [nx]) init (length pre) v' (s', log))
        = Some (log @
             (if (operator nx = ''&&'' \<and> exitCode r \<noteq> Finite 0)
                 \<or> (operator nx = ''||'' \<and> exitCode r = Finite 0) then []
              else [(parsed nx, init)]))"
    using pipelineIter_logged_calls[where i="length pre" and cmds="pre @ [nx]" and ec=ec
            and init=init and v=v' and s=s' and log=log] assms(1,2) ex
    by simp
  ultimately show ?thesis
    by (simp add: callsDuring_executePipeline)
qed


text \<open>
  A stage that ran in the middle of a pipe hands its standard output to the next stage:
  when stage \<open>i\<close> runs and returns \<open>r\<close>, and stage \<open>i + 1\<close> is connected to it by a pipe,
  the loop leaves \<open>stdout r\<close> in its pipe variable and stage \<open>i + 1\<close> is called with it.
\<close>

lemma piped_stage_receives_predecessor_stdout:
  assumes "i + 1 < length cmds" and "operator (cmds ! (i + 1)) = []"
    and "\<not> (operator (cmds ! i) = ''&&'' \<and> exitCode (lastResult v) \<noteq> Finite 0)"
    and "\<not> (operator (cmds ! i) = ''||'' \<and> exitCode (lastResult v) = Finite 0)"
    and "ec s (parsed (cmds ! i)) (if operator (cmds ! i) = [] \<and> 0 < i then pstdin v else init)
           = Returned r s'"
    and "ec s' (parsed (cmds ! (i + 1))) (stdout r) \<noteq> OutOfFuel"
  shows "\<exists>v'. pipelineIter ec cmds init i v s = Returned v' s' \<and> pstdin v' = stdout r
           \<and> callsDuring (pipelineIter (logged ec) cmds init (i + 1) v' (s', log))
               = Some (log @ [(parsed (cmds ! (i + 1)), stdout r)])"
proof -
  let ?v1 = "if operator (cmds ! i) \<noteq> [] \<or> i = 0
             then v\<lparr>currentNegationCount := negationCount (cmds ! i)\<rparr> else v"
  let ?v' = "?v1\<lparr>pstdin := stdout r, accumulatedStderr := accumulatedStderr ?v1 @ stderr r,
                 lastResult := r\<rparr>"
  have it: "pipelineIter ec cmds init i v s = Returned ?v' s'"
    using assms(1-5) unfolding pipelineIter_def Let_def
    by (cases "operator (cmds ! i) = [] \<and> 0 < i") auto
  have ps: "pstdin ?v' = stdout r" by simp
  have "callsDuring (pipelineIter (logged ec) cmds init (i + 1) ?v' (s', log))
               = Some (log @ [(parsed (cmds ! (i + 1)), stdout r)])"
    using pipelineIter_logged_calls[where i="i + 1" and cmds=cmds and ec=ec and init=init
            and v="?v'" and s=s' and log=log] assms(1,2,6)
    by simp
  with it ps show ?thesis by blast
qed

text \<open>\<^verbatim>\<open>echo hi | cat | cat\<close> prints \<^verbatim>\<open>hi\<close> once.\<close>

lemma echo_hi_cat_cat:
  "exec (exampleHost echoAndCat
           (parseTable [(''echo hi | cat | cat'',
              [\<lparr>commands = [stageOf [] ''echo'' [''hi''], stageOf [] ''cat'' [],
                            stageOf [] ''cat'' []]\<rparr>])]))
     1 newShell ''echo hi | cat | cat''
   = Returned \<lparr>stdout = ''hi\<newline>'', stderr = [], exitCode = Finite 0\<rparr>
       (newShell\<lparr>commandCount := 1\<rparr>)"
  by code_simp

text \<open>
  C1. The pipe variable is not touched when a stage is skipped. In
  \<^verbatim>\<open>echo x | nosuch && echo a | cat\<close> the stage \<^verbatim>\<open>echo a\<close> is skipped, because \<^verbatim>\<open>nosuch\<close>
  fails with 127, and the stage \<^verbatim>\<open>cat\<close> behind it, connected to it by a pipe, still runs: it
  is called with the standard output of \<^verbatim>\<open>echo x\<close>, two stages back, and prints it. The
  calls made are the ones listed, each with the standard input it received.
\<close>

theorem skipped_stage_leaves_stale_stdin:
  "executePipeline
     (logged (executeCommand (exampleHost echoAndCat (parseTable []))
                (exec (exampleHost echoAndCat (parseTable [])) 0)))
     \<lparr>commands = [stageOf [] ''echo'' [''x''], stageOf [] ''nosuch'' [],
                  stageOf ''&&'' ''echo'' [''a''], stageOf [] ''cat'' []]\<rparr>
     [] (newShell, [])
   = Returned \<lparr>stdout = ''x\<newline>'', stderr = ''bash: nosuch: command not found\<newline>'',
               exitCode = Finite 0\<rparr>
       (newShell,
        [(parsed (stageOf [] ''echo'' [''x'']), []),
         (parsed (stageOf [] ''nosuch'' []), ''x\<newline>''),
         (parsed (stageOf [] ''cat'' []), ''x\<newline>'')])"
  by code_simp

text \<open>
  C2. Whether stage \<open>i\<close> runs is decided by its operator and the exit code the loop carries
  in \<open>lastResult\<close> (that of the last stage that ran, after negation): behind \<^verbatim>\<open>&&\<close> the
  stage is called, once and with the original standard input, exactly when that code is 0;
  behind \<^verbatim>\<open>||\<close> exactly when it is not 0; behind \<^verbatim>\<open>;\<close>, and as the first stage, always; a
  stage behind a pipe is always called, with the pipe variable. So a pipeline
  \<^verbatim>\<open>c1 && c2\<close> whose first stage returns a non-zero code returns that stage's output
  and code, and \<open>c2\<close> is never called: for \<^verbatim>\<open>cat /nonexistent && echo second\<close> that is
  empty standard output and exit code 1.
\<close>

theorem chain_operator_gates_stage:
  assumes "i < length cmds"
    and "ec s (parsed (cmds ! i)) (if operator (cmds ! i) = [] \<and> 0 < i then pstdin v else init)
           \<noteq> OutOfFuel"
  shows "callsDuring (pipelineIter (logged ec) cmds init i v (s, [])) =
           (if operator (cmds ! i) = ''&&'' then
              (if exitCode (lastResult v) = Finite 0 then Some [(parsed (cmds ! i), init)] else Some [])
            else if operator (cmds ! i) = ''||'' then
              (if exitCode (lastResult v) \<noteq> Finite 0 then Some [(parsed (cmds ! i), init)] else Some [])
            else if operator (cmds ! i) = [] \<and> 0 < i then Some [(parsed (cmds ! i), pstdin v)]
            else Some [(parsed (cmds ! i), init)])
       \<and> (\<forall>c1 c2 k r1 s1.
             ec s c1 init = Returned r1 s1 \<longrightarrow> exitCode r1 \<noteq> Finite 0 \<longrightarrow>
             executePipeline (logged ec)
               \<lparr>commands = [\<lparr>parsed = c1, operator = [], negationCount = 0\<rparr>,
                            \<lparr>parsed = c2, operator = ''&&'', negationCount = k\<rparr>]\<rparr> init (s, [])
             = Returned \<lparr>stdout = stdout r1, stderr = stderr r1, exitCode = exitCode r1\<rparr>
                 (s1, [(c1, init)]))"
proof -
  have a: "callsDuring (pipelineIter (logged ec) cmds init i v (s, [])) =
           (if operator (cmds ! i) = ''&&'' then
              (if exitCode (lastResult v) = Finite 0 then Some [(parsed (cmds ! i), init)] else Some [])
            else if operator (cmds ! i) = ''||'' then
              (if exitCode (lastResult v) \<noteq> Finite 0 then Some [(parsed (cmds ! i), init)] else Some [])
            else if operator (cmds ! i) = [] \<and> 0 < i then Some [(parsed (cmds ! i), pstdin v)]
            else Some [(parsed (cmds ! i), init)])"
    using pipelineIter_logged_calls[where i=i and cmds=cmds and ec=ec and s=s and v=v
            and init=init and log="[]"] assms
    by auto
  have b: "executePipeline (logged ec)
               \<lparr>commands = [\<lparr>parsed = c1, operator = [], negationCount = 0\<rparr>,
                            \<lparr>parsed = c2, operator = ''&&'', negationCount = k\<rparr>]\<rparr> init (s, [])
             = Returned \<lparr>stdout = stdout r1, stderr = stderr r1, exitCode = exitCode r1\<rparr>
                 (s1, [(c1, init)])"
    if "ec s c1 init = Returned r1 s1" and "exitCode r1 \<noteq> Finite 0" for c1 c2 k r1 s1
    using that
    by (simp add: executePipeline_def pipelineLoop.simps pipelineIter_def initialPipeVars_def
        logged_def emptyResult_def)
  from a b show ?thesis by blast
qed

theorem chain_operator_gates_stage_witness:
  "callsDuring
     (pipelineIter
        (logged (executeCommand (exampleHost echoAndCat (parseTable []))
                   (exec (exampleHost echoAndCat (parseTable [])) 0)))
        [stageOf [] ''cat'' [''/nonexistent''], stageOf ''&&'' ''echo'' [''second'']] [] 1
        \<lparr>pstdin = [],
         lastResult = \<lparr>stdout = [],
                         stderr = ''cat: /nonexistent: No such file or directory\<newline>'',
                         exitCode = Finite 1\<rparr>,
         accumulatedStdout = [],
         accumulatedStderr = ''cat: /nonexistent: No such file or directory\<newline>'',
         currentNegationCount = 0\<rparr>
        (newShell, [])) = Some []
   \<and> executePipeline
       (logged (executeCommand (exampleHost echoAndCat (parseTable []))
                  (exec (exampleHost echoAndCat (parseTable [])) 0)))
       \<lparr>commands = [stageOf [] ''cat'' [''/nonexistent''], stageOf ''&&'' ''echo'' [''second'']]\<rparr>
       [] (newShell, [])
     = Returned \<lparr>stdout = [], stderr = ''cat: /nonexistent: No such file or directory\<newline>'',
                 exitCode = Finite 1\<rparr>
         (newShell, [(parsed (stageOf [] ''cat'' [''/nonexistent'']), [])])"
proof -
  let ?ec = "executeCommand (exampleHost echoAndCat (parseTable []))
               (exec (exampleHost echoAndCat (parseTable [])) 0)"
  let ?cmds = "[stageOf [] ''cat'' [''/nonexistent''], stageOf ''&&'' ''echo'' [''second'']]"
  let ?v = "\<lparr>pstdin = [],
         lastResult = \<lparr>stdout = [],
                         stderr = ''cat: /nonexistent: No such file or directory\<newline>'',
                         exitCode = Finite 1\<rparr>,
         accumulatedStdout = [],
         accumulatedStderr = ''cat: /nonexistent: No such file or directory\<newline>'',
         currentNegationCount = 0\<rparr>"
  have len: "1 < length ?cmds" by simp
  have run2: "?ec newShell (parsed (?cmds ! 1))
                (if operator (?cmds ! 1) = [] \<and> 0 < (1::nat) then pstdin ?v else []) \<noteq> OutOfFuel"
    by code_simp
  have run1: "?ec newShell (parsed (stageOf [] ''cat'' [''/nonexistent''])) []
                = Returned \<lparr>stdout = [],
                     stderr = ''cat: /nonexistent: No such file or directory\<newline>'',
                     exitCode = Finite 1\<rparr> newShell"
    by code_simp
  have st: "stageOf [] ''cat'' [''/nonexistent'']
              = \<lparr>parsed = parsed (stageOf [] ''cat'' [''/nonexistent'']), operator = [],
                 negationCount = 0\<rparr>"
    "stageOf ''&&'' ''echo'' [''second'']
              = \<lparr>parsed = parsed (stageOf ''&&'' ''echo'' [''second'']), operator = ''&&'',
                 negationCount = 0\<rparr>"
    by (simp_all add: stageOf_def)
  from chain_operator_gates_stage [where i=1 and cmds="?cmds" and ec="?ec" and s=newShell
         and v="?v" and init="[]", OF len run2]
  have g: "callsDuring (pipelineIter (logged ?ec) ?cmds [] 1 ?v (newShell, [])) = Some []"
    and e: "\<And>c1 c2 k r1 s1. ?ec newShell c1 [] = Returned r1 s1 \<Longrightarrow> exitCode r1 \<noteq> Finite 0 \<Longrightarrow>
             executePipeline (logged ?ec)
               \<lparr>commands = [\<lparr>parsed = c1, operator = [], negationCount = 0\<rparr>,
                            \<lparr>parsed = c2, operator = ''&&'', negationCount = k\<rparr>]\<rparr> [] (newShell, [])
             = Returned \<lparr>stdout = stdout r1, stderr = stderr r1, exitCode = exitCode r1\<rparr>
                 (s1, [(c1, [])])"
    by (simp_all add: stageOf_def)
  from e[OF run1, of "parsed (stageOf ''&&'' ''echo'' [''second''])" 0] g
  show ?thesis by (simp add: st[symmetric])
qed

text \<open>
  C7. For a pipe-connected run, the number \<open>n\<close> of leading \<^verbatim>\<open>!\<close> changes nothing but the
  exit code, which is that of the run without negation when \<open>n\<close> is even, and inverted
  once (0 becomes 1, every other code becomes 0) when \<open>n\<close> is odd. The inverted code is
  the one that gates the stage behind the run: a stage behind \<^verbatim>\<open>&&\<close> is called exactly when
  the run's code after negation is 0, one behind \<^verbatim>\<open>||\<close> exactly when it is not.
\<close>

theorem negation_parity:
  assumes "operator first = []" and "\<forall>st \<in> set rest. operator st = []"
    and "operator nx \<noteq> []"
  shows "executePipeline ec \<lparr>commands = first\<lparr>negationCount := n\<rparr> # rest\<rparr> init s
           = withExitCode (negated n)
               (executePipeline ec \<lparr>commands = first\<lparr>negationCount := 0\<rparr> # rest\<rparr> init s)
       \<and> (even n \<longrightarrow> negated n code = code)
       \<and> (odd n \<longrightarrow> negated n (Finite 0) = Finite 1 \<and> (code \<noteq> Finite 0 \<longrightarrow> negated n code = Finite 0))
       \<and> (\<forall>r s' log.
             executePipeline (logged ec) \<lparr>commands = first\<lparr>negationCount := n\<rparr> # rest\<rparr>
               init (s, []) = Returned r (s', log) \<longrightarrow>
             ec s' (parsed nx) init \<noteq> OutOfFuel \<longrightarrow>
             callsDuring
               (executePipeline (logged ec)
                  \<lparr>commands = (first\<lparr>negationCount := n\<rparr> # rest) @ [nx]\<rparr> init (s, []))
             = Some (log @
                 (if (operator nx = ''&&'' \<and> exitCode r \<noteq> Finite 0)
                     \<or> (operator nx = ''||'' \<and> exitCode r = Finite 0) then []
                  else [(parsed nx, init)])))"
proof -
  have a: "executePipeline ec \<lparr>commands = first\<lparr>negationCount := n\<rparr> # rest\<rparr> init s
           = withExitCode (negated n)
               (executePipeline ec \<lparr>commands = first\<lparr>negationCount := 0\<rparr> # rest\<rparr> init s)"
    using assms(1,2) by (rule executePipeline_negation)
  have b: "(even n \<longrightarrow> negated n code = code)
       \<and> (odd n \<longrightarrow> negated n (Finite 0) = Finite 1 \<and> (code \<noteq> Finite 0 \<longrightarrow> negated n code = Finite 0))"
    by (simp add: negated_def)
  have c: "callsDuring
               (executePipeline (logged ec)
                  \<lparr>commands = (first\<lparr>negationCount := n\<rparr> # rest) @ [nx]\<rparr> init (s, []))
             = Some (log @
                 (if (operator nx = ''&&'' \<and> exitCode r \<noteq> Finite 0)
                     \<or> (operator nx = ''||'' \<and> exitCode r = Finite 0) then []
                  else [(parsed nx, init)]))"
    if "executePipeline (logged ec) \<lparr>commands = first\<lparr>negationCount := n\<rparr> # rest\<rparr>
               init (s, []) = Returned r (s', log)"
      and "ec s' (parsed nx) init \<noteq> OutOfFuel" for r s' log
    using assms(3) that(2) that(1) by (rule adjusted_code_gates_next)
  from a b c show ?thesis by blast
qed

theorem negation_parity_witness:
  "executePipeline
     (executeCommand (exampleHost echoAndCat (parseTable []))
        (exec (exampleHost echoAndCat (parseTable [])) 0))
     \<lparr>commands = [(stageOf [] ''echo'' [''hi''])\<lparr>negationCount := 3\<rparr>]\<rparr> [] newShell
   = Returned \<lparr>stdout = ''hi\<newline>'', stderr = [], exitCode = Finite 1\<rparr> newShell
   \<and> executePipeline
     (executeCommand (exampleHost echoAndCat (parseTable []))
        (exec (exampleHost echoAndCat (parseTable [])) 0))
     \<lparr>commands = [(stageOf [] ''echo'' [''hi''])\<lparr>negationCount := 2\<rparr>]\<rparr> [] newShell
   = Returned \<lparr>stdout = ''hi\<newline>'', stderr = [], exitCode = Finite 0\<rparr> newShell
   \<and> callsDuring
       (executePipeline
          (logged (executeCommand (exampleHost echoAndCat (parseTable []))
             (exec (exampleHost echoAndCat (parseTable [])) 0)))
          \<lparr>commands = [(stageOf [] ''echo'' [''hi''])\<lparr>negationCount := 3\<rparr>]
                         @ [stageOf ''&&'' ''echo'' [''then'']]\<rparr> [] (newShell, []))
     = Some [(parsed (stageOf [] ''echo'' [''hi'']), [])]"
proof -
  let ?ec = "executeCommand (exampleHost echoAndCat (parseTable []))
               (exec (exampleHost echoAndCat (parseTable [])) 0)"
  let ?first = "stageOf [] ''echo'' [''hi'']"
  let ?nx = "stageOf ''&&'' ''echo'' [''then'']"
  have h: "operator ?first = []" "\<forall>st \<in> set []. operator st = []" "operator ?nx \<noteq> []"
    by (simp_all add: stageOf_def)
  have base: "executePipeline ?ec \<lparr>commands = [?first\<lparr>negationCount := 0\<rparr>]\<rparr> [] newShell
              = Returned \<lparr>stdout = ''hi\<newline>'', stderr = [], exitCode = Finite 0\<rparr> newShell"
    by code_simp
  have lg: "executePipeline (logged ?ec) \<lparr>commands = [?first\<lparr>negationCount := 3\<rparr>]\<rparr> []
              (newShell, [])
            = Returned \<lparr>stdout = ''hi\<newline>'', stderr = [], exitCode = Finite 1\<rparr>
                (newShell, [(parsed ?first, [])])"
    by code_simp
  have nf: "?ec newShell (parsed ?nx) [] \<noteq> OutOfFuel"
    by code_simp
  note t3 = negation_parity [where first="?first" and rest="[]" and nx="?nx" and ec="?ec"
              and n=3 and init="[]" and s=newShell and code="Finite 0", OF h]
  note t2 = negation_parity [where first="?first" and rest="[]" and nx="?nx" and ec="?ec"
              and n=2 and init="[]" and s=newShell and code="Finite 0", OF h]
  have w1: "withExitCode (negated 3)
              (Returned \<lparr>stdout = ''hi\<newline>'', stderr = [], exitCode = Finite 0\<rparr> newShell)
            = Returned \<lparr>stdout = ''hi\<newline>'', stderr = [], exitCode = Finite 1\<rparr> newShell"
    "withExitCode (negated 2)
              (Returned \<lparr>stdout = ''hi\<newline>'', stderr = [], exitCode = Finite 0\<rparr> newShell)
            = Returned \<lparr>stdout = ''hi\<newline>'', stderr = [], exitCode = Finite 0\<rparr> newShell"
    by (simp_all add: negated_def)
  have c3: "executePipeline ?ec \<lparr>commands = [?first\<lparr>negationCount := 3\<rparr>]\<rparr> [] newShell
     = Returned \<lparr>stdout = ''hi\<newline>'', stderr = [], exitCode = Finite 1\<rparr> newShell"
    using t3[THEN conjunct1] unfolding base w1 .
  have c2: "executePipeline ?ec \<lparr>commands = [?first\<lparr>negationCount := 2\<rparr>]\<rparr> [] newShell
     = Returned \<lparr>stdout = ''hi\<newline>'', stderr = [], exitCode = Finite 0\<rparr> newShell"
    using t2[THEN conjunct1] unfolding base w1 .
  have g0: "callsDuring
       (executePipeline (logged ?ec)
          \<lparr>commands = [?first\<lparr>negationCount := 3\<rparr>] @ [?nx]\<rparr> [] (newShell, []))
     = Some ([(parsed ?first, [])] @
         (if (operator ?nx = ''&&'' \<and>
                exitCode \<lparr>stdout = ''hi\<newline>'', stderr = [], exitCode = Finite 1\<rparr> \<noteq> Finite 0)
             \<or> (operator ?nx = ''||'' \<and>
                exitCode \<lparr>stdout = ''hi\<newline>'', stderr = [], exitCode = Finite 1\<rparr> = Finite 0) then []
          else [(parsed ?nx, [])]))"
    using t3[THEN conjunct2, THEN conjunct2, THEN conjunct2, rule_format, OF lg nf] .
  have g: "callsDuring
       (executePipeline (logged ?ec)
          \<lparr>commands = [?first\<lparr>negationCount := 3\<rparr>] @ [?nx]\<rparr> [] (newShell, []))
     = Some [(parsed ?first, [])]"
    unfolding g0 by (simp add: stageOf_def)
  from c3 c2 g show ?thesis by (intro conjI)
qed

section \<open>Function calls\<close>















section \<open>Exceptions\<close>

text \<open>
  An exception thrown by a registered command is caught around \<^verbatim>\<open>cmd.execute\<close>: the
  command word, the message and exit code 1 are the result that goes on to the
  redirections.
\<close>

lemma dispatched_exception_is_downgraded:
  assumes "registry h (commandNameOf expandedCommand) = Some cmd"
    and "cmd rec a inp s = Threw message s'"
  shows "tryExecute cmd rec cmdWord a inp s =
           Returned \<lparr>stdout = [], stderr = cmdWord @ '': '' @ message @ ''\<newline>'', exitCode = Finite 1\<rparr> s'"
    and "dispatchCommand h rec cmdWord expandedCommand a [] inp s =
           Returned \<lparr>stdout = [], stderr = cmdWord @ '': '' @ message @ ''\<newline>'', exitCode = Finite 1\<rparr> s'"
  using assms by (simp_all add: tryExecute_def dispatchCommand_def)

text \<open>
  C9. An exception does escape \<^verbatim>\<open>exec\<close>: \<^verbatim>\<open>echo hi >> /\<close> on a new instance. The command
  returns, and \<^verbatim>\<open>applyRedirections\<close> then appends to the root directory, which the file
  system refuses by throwing; nothing between there and the caller of \<^verbatim>\<open>exec\<close> catches it.
\<close>

theorem redirection_failure_escapes_exec:
  "exec (exampleHost echoAndCat
           (parseTable [(''echo hi >> /'',
              [\<lparr>commands =
                  [\<lparr>parsed = \<lparr>command = ''echo'', args = [''hi''], quotedArgs = [False],
                              redirections =
                                [\<lparr>rtype = RStdout, target = Some ''/'', append = True\<rparr>]\<rparr>,
                    operator = [], negationCount = 0\<rparr>]\<rparr>])]))
     1 newShell ''echo hi >> /''
   = Threw (''EISDIR: illegal operation on a directory, write '' @ [CHR 0x27] @ ''/'' @ [CHR 0x27])
       (newShell\<lparr>commandCount := 1\<rparr>)"
  by code_simp

text \<open>
  C4. When the body of a function throws, nothing after the call of the body runs. With
  \<^verbatim>\<open>f\<close> defined as \<^verbatim>\<open>echo hi >> /\<close>, the call \<^verbatim>\<open>f\<close> on a new instance throws, and the state
  left behind has call depth 1, the frame of the call still on the scope stack and \<^verbatim>\<open>$@\<close>
  and \<^verbatim>\<open>$#\<close> still in the environment.
\<close>

theorem throwing_body_skips_function_cleanup:
  "exec (exampleHost echoAndCat
           (parseTable [(''f'', [\<lparr>commands = [stageOf [] ''f'' []]\<rparr>]),
                        (''echo hi >> /'',
              [\<lparr>commands =
                  [\<lparr>parsed = \<lparr>command = ''echo'', args = [''hi''], quotedArgs = [False],
                              redirections =
                                [\<lparr>rtype = RStdout, target = Some ''/'', append = True\<rparr>]\<rparr>,
                    operator = [], negationCount = 0\<rparr>]\<rparr>])]))
     2 (newShell\<lparr>functions := [(''f'', ''echo hi >> /'')]\<rparr>) ''f''
   = Threw (''EISDIR: illegal operation on a directory, write '' @ [CHR 0x27] @ ''/'' @ [CHR 0x27])
       (newShell\<lparr>functions := [(''f'', ''echo hi >> /'')], commandCount := 2, callDepth := 1,
                  localScopes := [[]],
                  env := [(''HOME'', Str ''/''), (''PATH'', Str ''/bin:/usr/bin''),
                          (''@'', Str []), (''#'', Str ''0'')]\<rparr>)"
  by code_simp


section \<open>Local variables\<close>

text \<open>
  C5. The variable is not restored when a function called inside the body ends by an
  exception that the dispatch of a command catches. \<^verbatim>\<open>run\<close> is a registered command that
  hands its arguments to the \<^verbatim>\<open>exec\<close> callback. With \<^verbatim>\<open>f\<close> defined as \<^verbatim>\<open>local X=1; run g\<close>,
  \<^verbatim>\<open>g\<close> defined as \<^verbatim>\<open>echo hi >> /\<close> and \<^verbatim>\<open>X\<close> holding \<^verbatim>\<open>outer\<close>, the call \<^verbatim>\<open>f\<close> returns with exit
  code 1: the body of \<^verbatim>\<open>g\<close> throws, the frame of \<^verbatim>\<open>g\<close> stays on the scope stack, the dispatch
  of \<^verbatim>\<open>run\<close> catches the exception, and at the end of \<^verbatim>\<open>f\<close> the frame that is popped is the one
  \<^verbatim>\<open>g\<close> left behind, not the one that recorded \<^verbatim>\<open>X\<close>. After the call \<^verbatim>\<open>X\<close> holds 1, the call
  depth is 1 and the frame of \<^verbatim>\<open>f\<close> is still on the stack; \<^verbatim>\<open>local X=2\<close> at the top level is
  then not an error but returns exit code 0.
\<close>

theorem local_not_restored_after_caught_throw:
  "(let h = exampleHost echoAndRun
              (parseTable
                 [(''f'', [\<lparr>commands = [stageOf [] ''f'' []]\<rparr>]),
                  (''local X=1; run g'',
                   [\<lparr>commands = [stageOf [] ''local'' [''X=1''],
                                 stageOf '';'' ''run'' [''g'']]\<rparr>]),
                  (''g'', [\<lparr>commands = [stageOf [] ''g'' []]\<rparr>]),
                  (''echo hi >> /'',
                   [\<lparr>commands =
                       [\<lparr>parsed = \<lparr>command = ''echo'', args = [''hi''], quotedArgs = [False],
                                   redirections =
                                     [\<lparr>rtype = RStdout, target = Some ''/'',
                                       append = True\<rparr>]\<rparr>,
                         operator = [], negationCount = 0\<rparr>]\<rparr>]),
                  (''local X=2'', [\<lparr>commands = [stageOf [] ''local'' [''X=2'']]\<rparr>])]);
        defined = newShell\<lparr>functions := [(''f'', ''local X=1; run g''),
                                          (''g'', ''echo hi >> /'')]\<rparr>;
        before = defined\<lparr>env := [(''HOME'', Str ''/''), (''PATH'', Str ''/bin:/usr/bin''),
                                  (''X'', Str ''outer'')]\<rparr>;
        after = defined\<lparr>env := [(''HOME'', Str ''/''), (''PATH'', Str ''/bin:/usr/bin''),
                                 (''X'', Str ''1'')],
                         localScopes := [[(''X'', Some (Str ''outer''))]], callDepth := 1,
                         commandCount := 4\<rparr>
    in exec h 4 before ''f''
         = Returned
             \<lparr>stdout = [],
              stderr = ''run: EISDIR: illegal operation on a directory, write '' @ [CHR 0x27]
                         @ ''/'' @ [CHR 0x27] @ ''\<newline>'',
              exitCode = Finite 1\<rparr> after
       \<and> exec h 1 after ''local X=2''
           = Returned \<lparr>stdout = [], stderr = [], exitCode = Finite 0\<rparr>
               (after\<lparr>env := [(''HOME'', Str ''/''), (''PATH'', Str ''/bin:/usr/bin''),
                                (''X'', Str ''2'')],
                      commandCount := 5\<rparr>))"
  by code_simp

end
